theory Spec2Isabelle
  imports Complex_Main "HOL-Library.Word" "HOL-Library.Sublist"
begin

section \<open>The RGB / depth synchronisation application\<close>

text \<open>
  A shallow embedding of \<^verbatim>\<open>rgb_depth_sync_application.cc\<close>, the class
  \<^verbatim>\<open>SynchronizationApplication\<close>. The class is glue around the Tango client and
  support libraries, the helper objects \<^verbatim>\<open>color_image_\<close>, \<^verbatim>\<open>depth_image_\<close> and
  \<^verbatim>\<open>main_scene_\<close>, and the glm matrix type. None of these is defined in the file, so
  \<^item> what an external function answers is read from a record of externals, one field per
    function, a function of the arguments the source passes;
  \<^item> what the application does to the outside (a service call with the answer it got, a
    line written with \<^verbatim>\<open>LOGE\<close>, a call on a helper object) is appended to a trace of
    events, in program order;
  \<^item> the fields of the object are a record, passed in and returned.
\<close>

subsection \<open>Types of the service interface\<close>

text \<open>
  The enumerations of the client library. The source compares a status with
  \<^verbatim>\<open>TANGO_SUCCESS\<close> and a pose status with \<^verbatim>\<open>TANGO_POSE_VALID\<close>, and names two
  coordinate frames, one camera and one configuration; the other enumerators only stand
  for "any other value".
\<close>

datatype TangoErrorType =
    TANGO_NO_CAMERA_PERMISSION
  | TANGO_NO_ADF_PERMISSION
  | TANGO_NO_MOTION_TRACKING_PERMISSION
  | TANGO_INVALID
  | TANGO_ERROR
  | TANGO_SUCCESS

datatype TangoPoseStatusType =
    TANGO_POSE_INITIALIZING
  | TANGO_POSE_VALID
  | TANGO_POSE_INVALID
  | TANGO_POSE_UNKNOWN

datatype TangoCoordinateFrameType =
    TANGO_COORDINATE_FRAME_GLOBAL_WGS84
  | TANGO_COORDINATE_FRAME_AREA_DESCRIPTION
  | TANGO_COORDINATE_FRAME_START_OF_SERVICE
  | TANGO_COORDINATE_FRAME_PREVIOUS_DEVICE_POSE
  | TANGO_COORDINATE_FRAME_DEVICE
  | TANGO_COORDINATE_FRAME_IMU
  | TANGO_COORDINATE_FRAME_DISPLAY
  | TANGO_COORDINATE_FRAME_CAMERA_COLOR
  | TANGO_COORDINATE_FRAME_CAMERA_DEPTH
  | TANGO_COORDINATE_FRAME_CAMERA_FISHEYE

datatype TangoCameraId =
    TANGO_CAMERA_COLOR
  | TANGO_CAMERA_RGBIR
  | TANGO_CAMERA_FISHEYE
  | TANGO_CAMERA_DEPTH

datatype TangoConfigType =
    TANGO_CONFIG_DEFAULT
  | TANGO_CONFIG_CURRENT
  | TANGO_CONFIG_MOTION_TRACKING
  | TANGO_CONFIG_AREA_LEARNING

text \<open>
  Timestamps (\<^verbatim>\<open>double\<close>) and the alpha value and screen size (\<^verbatim>\<open>float\<close>) are only
  stored and handed on by this file, never computed with; they are carried as reals.
  Handles are opaque; a pointer that may be null is an \<open>option\<close>, \<open>None\<close> for
  \<^verbatim>\<open>nullptr\<close>.
\<close>

type_synonym TangoConfig = nat
type_synonym TangoSupportPointCloudManager = nat
type_synonym GLuint = "32 word"
type_synonym JNIEnv = nat
type_synonym jobject = nat

record TangoCoordinateFramePair =
  base :: TangoCoordinateFrameType
  target :: TangoCoordinateFrameType

record TangoPoseData =
  orientation :: "real list"
  translation :: "real list"
  status_code :: TangoPoseStatusType

record TangoXYZij =
  timestamp :: real
  xyz :: "(real \<times> real \<times> real) list"

record TangoCameraIntrinsics =
  width :: "32 word"
  height :: "32 word"
  fx :: real
  fy :: real
  cx :: real
  cy :: real

subsection \<open>The externals\<close>

text \<open>
  One field per external function the source calls, named as in the source. A function
  with an out-parameter answers a pair: the status and what the out-parameter holds after
  the call. Where the source reads the out-parameter whatever the status was, and the
  variable had a value before the call, the answer is an \<open>option\<close>: \<open>None\<close> when the
  callee left the variable as it was. The type \<open>'m\<close> is \<^verbatim>\<open>glm::mat4\<close>, with
  \<open>mat4_mul\<close> its \<^verbatim>\<open>operator*\<close>.
\<close>

record 'm externals =
  TangoSupport_updatePointCloud ::
    "TangoSupportPointCloudManager option \<Rightarrow> TangoXYZij \<Rightarrow> TangoErrorType"
  TangoSupport_freePointCloudManager ::
    "TangoSupportPointCloudManager option \<Rightarrow> TangoErrorType"
  TangoSupport_GetTangoVersion :: "JNIEnv \<Rightarrow> jobject \<Rightarrow> TangoErrorType \<times> 32 word"
  TangoService_setBinder :: "JNIEnv \<Rightarrow> jobject \<Rightarrow> TangoErrorType"
  TangoService_getConfig :: "TangoConfigType \<Rightarrow> TangoConfig option"
  TangoConfig_setBool :: "TangoConfig \<Rightarrow> string \<Rightarrow> bool \<Rightarrow> TangoErrorType"
  TangoConfig_getInt32 :: "TangoConfig \<Rightarrow> string \<Rightarrow> TangoErrorType \<times> 32 word"
  TangoSupport_createPointCloudManager ::
    "32 word \<Rightarrow> TangoErrorType \<times> TangoSupportPointCloudManager option"
  TangoService_connectTextureId :: "TangoCameraId \<Rightarrow> GLuint \<Rightarrow> TangoErrorType"
  TangoService_connectOnXYZijAvailable :: TangoErrorType
  TangoService_connect :: "TangoConfig option \<Rightarrow> TangoErrorType"
  TangoService_getCameraIntrinsics ::
    "TangoCameraId \<Rightarrow> TangoErrorType \<times> TangoCameraIntrinsics"
  TangoSupport_getLatestPointCloudAndNewDataFlag ::
    "TangoSupportPointCloudManager option \<Rightarrow> TangoErrorType \<times> TangoXYZij option \<times> bool option"
  TangoService_updateTexture :: "TangoCameraId \<Rightarrow> TangoErrorType \<times> real option"
  TangoService_getPoseAtTime ::
    "real \<Rightarrow> TangoCoordinateFramePair \<Rightarrow> TangoErrorType \<times> TangoPoseData"
  GetMatrixFromPose :: "TangoPoseData \<Rightarrow> 'm"
  mat4_mul :: "'m \<Rightarrow> 'm \<Rightarrow> 'm"
  color_image_GetTextureId :: GLuint
  depth_image_GetTextureId :: GLuint
  static_cast_float :: "32 word \<Rightarrow> real"

subsection \<open>Events\<close>

datatype sdk_call =
    Call_updatePointCloud "TangoSupportPointCloudManager option" TangoXYZij
  | Call_freePointCloudManager "TangoSupportPointCloudManager option"
  | Call_GetTangoVersion JNIEnv jobject
  | Call_setBinder JNIEnv jobject
  | Call_getConfig TangoConfigType
  | Call_Config_free TangoConfig
  | Call_setBool TangoConfig string bool
  | Call_getInt32 TangoConfig string
  | Call_createPointCloudManager "32 word"
  | Call_connectTextureId TangoCameraId GLuint
  | Call_connectOnXYZijAvailable
  | Call_connect "TangoConfig option"
  | Call_disconnect
  | Call_getCameraIntrinsics TangoCameraId
  | Call_getLatestPointCloudAndNewDataFlag "TangoSupportPointCloudManager option"
  | Call_updateTexture TangoCameraId
  | Call_getPoseAtTime real TangoCoordinateFramePair

text \<open>
  What a service call returned: a status, the configuration handle of
  \<^verbatim>\<open>TangoService_getConfig\<close> (null on failure), or nothing.
\<close>

datatype sdk_result =
    Status TangoErrorType
  | Handle "TangoConfig option"
  | Void

datatype log_arg = Arg_err TangoErrorType | Arg_time real

datatype 'm event =
    SDK sdk_call sdk_result
  | LOGE string "log_arg list"
  | DepthImage_RenderDepthToTexture 'm TangoXYZij bool
  | DepthImage_UpdateAndUpsampleDepth 'm TangoXYZij
  | DepthImage_SetCameraIntrinsics TangoCameraIntrinsics
  | DepthImage_InitializeGL
  | ColorImage_InitializeGL
  | Scene_InitializeGL
  | Scene_SetCameraIntrinsics TangoCameraIntrinsics
  | Scene_SetupViewPort "32 word" "32 word"
  | Scene_SetDepthAlphaValue real
  | Scene_Render GLuint GLuint

fun failed :: "sdk_result \<Rightarrow> bool" where
  "failed (Status e) = (e \<noteq> TANGO_SUCCESS)"
| "failed (Handle h) = (h = None)"
| "failed Void = False"

subsection \<open>The application object\<close>

text \<open>
  The data members the file uses. A name may not end in an underscore here, so the
  member \<^verbatim>\<open>tango_config_\<close> is the field \<open>tango_config\<close>, and so on. The pointer
  \<^verbatim>\<open>render_buffer_\<close> is the point cloud it points to, \<open>None\<close> when it is null.
\<close>

record 'm SynchronizationApplication =
  tango_config :: "TangoConfig option"
  point_cloud_manager :: "TangoSupportPointCloudManager option"
  render_buffer :: "TangoXYZij option"
  OW_T_SS :: 'm
  gpu_upsample :: bool
  screen_width :: real
  screen_height :: real

datatype fault = NullPointerDereference

subsection \<open>The member functions\<close>

text \<open>
  \<^verbatim>\<open>OnXYZijAvailable\<close>: the status of \<^verbatim>\<open>TangoSupport_updatePointCloud\<close> is dropped.
\<close>

definition OnXYZijAvailable ::
  "'m externals \<Rightarrow> TangoXYZij \<Rightarrow> 'm SynchronizationApplication
     \<Rightarrow> 'm SynchronizationApplication \<times> 'm event list" where
  "OnXYZijAvailable ext xyz_ij s =
     (s, [SDK (Call_updatePointCloud (point_cloud_manager s) xyz_ij)
              (Status (TangoSupport_updatePointCloud ext (point_cloud_manager s) xyz_ij))])"

text \<open>
  The constructor initialises \<^verbatim>\<open>OW_T_SS_\<close> from
  \<^verbatim>\<open>tango_gl::conversions::opengl_world_T_tango_world()\<close>, here the first argument,
  and \<^verbatim>\<open>gpu_upsample_\<close>; the members its initialiser list does not name keep what the
  second argument holds.
\<close>

definition constructor ::
  "'m \<Rightarrow> 'm SynchronizationApplication \<Rightarrow> 'm SynchronizationApplication" where
  "constructor opengl_world_T_tango_world mem =
     mem\<lparr>OW_T_SS := opengl_world_T_tango_world, gpu_upsample := False\<rparr>"

definition destructor ::
  "'m externals \<Rightarrow> 'm SynchronizationApplication
     \<Rightarrow> 'm SynchronizationApplication \<times> 'm event list" where
  "destructor ext s =
     (s\<lparr>point_cloud_manager := None\<rparr>,
      (case tango_config s of
         Some c \<Rightarrow> [SDK (Call_Config_free c) Void]
       | None \<Rightarrow> []) @
      [SDK (Call_freePointCloudManager (point_cloud_manager s))
           (Status (TangoSupport_freePointCloudManager ext (point_cloud_manager s)))])"

text \<open>
  \<^verbatim>\<open>CheckTangoVersion\<close>: \<^verbatim>\<open>int\<close> is 32 bits wide and compared as a signed number;
  \<^verbatim>\<open>&&\<close> reads \<^verbatim>\<open>version\<close> only after a success.
\<close>

definition CheckTangoVersion ::
  "'m externals \<Rightarrow> JNIEnv \<Rightarrow> jobject \<Rightarrow> 32 word \<Rightarrow> 'm SynchronizationApplication
     \<Rightarrow> bool \<times> 'm SynchronizationApplication \<times> 'm event list" where
  "CheckTangoVersion ext env activity min_tango_version s =
     (let (err, version) = TangoSupport_GetTangoVersion ext env activity
      in ((if err = TANGO_SUCCESS then min_tango_version \<le>s version else False),
          s, [SDK (Call_GetTangoVersion env activity) (Status err)]))"

definition OnTangoServiceConnected ::
  "'m externals \<Rightarrow> JNIEnv \<Rightarrow> jobject \<Rightarrow> 'm SynchronizationApplication
     \<Rightarrow> 'm SynchronizationApplication \<times> 'm event list" where
  "OnTangoServiceConnected ext env binder_obj s =
     (let ret = TangoService_setBinder ext env binder_obj
      in (s, SDK (Call_setBinder env binder_obj) (Status ret) #
             (if ret \<noteq> TANGO_SUCCESS
              then [LOGE ''SynchronizationApplication: Failed to set Tango service binder witherror code: %d''
                      [Arg_err ret]]
              else [])))"

definition SetDepthAlphaValue ::
  "real \<Rightarrow> 'm SynchronizationApplication \<Rightarrow> 'm SynchronizationApplication \<times> 'm event list" where
  "SetDepthAlphaValue alpha s = (s, [Scene_SetDepthAlphaValue alpha])"

definition SetGPUUpsample ::
  "bool \<Rightarrow> 'm SynchronizationApplication \<Rightarrow> 'm SynchronizationApplication" where
  "SetGPUUpsample on s = s\<lparr>gpu_upsample := on\<rparr>"

text \<open>
  \<^verbatim>\<open>TangoSetupConfig\<close>. Each early \<^verbatim>\<open>return\<close> of the source is a branch that ends
  the trace.
\<close>

definition TangoSetupConfig ::
  "'m externals \<Rightarrow> 'm SynchronizationApplication
     \<Rightarrow> bool \<times> 'm SynchronizationApplication \<times> 'm event list" where
  "TangoSetupConfig ext s =
     (let (s0, t0) = SetDepthAlphaValue 0 s;
          s1 = SetGPUUpsample False s0
      in if tango_config s1 \<noteq> None then (True, s1, t0)
         else
           let cfg = TangoService_getConfig ext TANGO_CONFIG_DEFAULT;
               s2 = s1\<lparr>tango_config := cfg\<rparr>;
               t1 = t0 @ [SDK (Call_getConfig TANGO_CONFIG_DEFAULT) (Handle cfg)]
           in case cfg of
                None \<Rightarrow> (False, s2, t1)
              | Some c \<Rightarrow>
                  let err1 = TangoConfig_setBool ext c ''config_enable_depth'' True;
                      t2 = t1 @ [SDK (Call_setBool c ''config_enable_depth'' True) (Status err1)]
                  in if err1 \<noteq> TANGO_SUCCESS
                     then (False, s2, t2 @ [LOGE ''Failed to enable depth.'' []])
                     else
                       let err2 = TangoConfig_setBool ext c ''config_enable_color_camera'' True;
                           t3 = t2 @ [SDK (Call_setBool c ''config_enable_color_camera'' True)
                                          (Status err2)]
                       in if err2 \<noteq> TANGO_SUCCESS
                          then (False, s2,
                                t3 @ [LOGE ''Failed to set 'enable_color_camera' configuration flag with error code: %d''
                                        [Arg_err err2]])
                          else
                            let err3 = TangoConfig_setBool ext c
                                         ''config_enable_low_latency_imu_integration'' True;
                                t4 = t3 @ [SDK (Call_setBool c
                                                  ''config_enable_low_latency_imu_integration'' True)
                                               (Status err3)]
                            in if err3 \<noteq> TANGO_SUCCESS
                               then (False, s2,
                                     t4 @ [LOGE ''Failed to enable low latency imu integration.'' []])
                               else if point_cloud_manager s2 = None
                               then
                                 let (err4, max_point_cloud_elements) =
                                       TangoConfig_getInt32 ext c ''max_point_cloud_elements'';
                                     t5 = t4 @ [SDK (Call_getInt32 c ''max_point_cloud_elements'')
                                                    (Status err4)]
                                 in if err4 \<noteq> TANGO_SUCCESS
                                    then (False, s2,
                                          t5 @ [LOGE ''Failed to query maximum number of point cloud elements.'' []])
                                    else
                                      let (err5, mgr) =
                                            TangoSupport_createPointCloudManager ext
                                              max_point_cloud_elements;
                                          s3 = s2\<lparr>point_cloud_manager := mgr\<rparr>;
                                          t6 = t5 @ [SDK (Call_createPointCloudManager
                                                            max_point_cloud_elements)
                                                         (Status err5)]
                                      in if err5 \<noteq> TANGO_SUCCESS
                                         then (False, s3, t6)
                                         else (True, s3, t6)
                               else (True, s2, t4))"

definition TangoConnectTexture ::
  "'m externals \<Rightarrow> 'm SynchronizationApplication
     \<Rightarrow> bool \<times> 'm SynchronizationApplication \<times> 'm event list" where
  "TangoConnectTexture ext s =
     (let err = TangoService_connectTextureId ext TANGO_CAMERA_COLOR (color_image_GetTextureId ext)
      in (err = TANGO_SUCCESS, s,
          [SDK (Call_connectTextureId TANGO_CAMERA_COLOR (color_image_GetTextureId ext))
               (Status err)]))"

definition TangoConnectCallbacks ::
  "'m externals \<Rightarrow> 'm SynchronizationApplication
     \<Rightarrow> bool \<times> 'm SynchronizationApplication \<times> 'm event list" where
  "TangoConnectCallbacks ext s =
     (let depth_ret = TangoService_connectOnXYZijAvailable ext
      in (depth_ret = TANGO_SUCCESS, s, [SDK Call_connectOnXYZijAvailable (Status depth_ret)]))"

definition TangoConnect ::
  "'m externals \<Rightarrow> 'm SynchronizationApplication
     \<Rightarrow> bool \<times> 'm SynchronizationApplication \<times> 'm event list" where
  "TangoConnect ext s =
     (let ret = TangoService_connect ext (tango_config s);
          t = [SDK (Call_connect (tango_config s)) (Status ret)]
      in if ret \<noteq> TANGO_SUCCESS
         then (False, s,
               t @ [LOGE ''SynchronizationApplication: Failed to connect to the Tango service.'' []])
         else (True, s, t))"

definition TangoSetIntrinsicsAndExtrinsics ::
  "'m externals \<Rightarrow> 'm SynchronizationApplication
     \<Rightarrow> bool \<times> 'm SynchronizationApplication \<times> 'm event list" where
  "TangoSetIntrinsicsAndExtrinsics ext s =
     (let (err, color_camera_intrinsics) =
            TangoService_getCameraIntrinsics ext TANGO_CAMERA_COLOR;
          t = [SDK (Call_getCameraIntrinsics TANGO_CAMERA_COLOR) (Status err)]
      in if err \<noteq> TANGO_SUCCESS
         then (False, s,
               t @ [LOGE ''SynchronizationApplication: Failed to get the intrinsics for the colorcamera.'' []])
         else (True, s,
               t @ [DepthImage_SetCameraIntrinsics color_camera_intrinsics,
                    Scene_SetCameraIntrinsics color_camera_intrinsics]))"

definition TangoDisconnect ::
  "'m SynchronizationApplication \<Rightarrow> 'm SynchronizationApplication \<times> 'm event list" where
  "TangoDisconnect s = (s, [SDK Call_disconnect Void])"

definition InitializeGLContent ::
  "'m SynchronizationApplication \<Rightarrow> 'm SynchronizationApplication \<times> 'm event list" where
  "InitializeGLContent s =
     (s, [DepthImage_InitializeGL, ColorImage_InitializeGL, Scene_InitializeGL])"

definition SetViewPort ::
  "'m externals \<Rightarrow> 32 word \<Rightarrow> 32 word \<Rightarrow> 'm SynchronizationApplication
     \<Rightarrow> 'm SynchronizationApplication \<times> 'm event list" where
  "SetViewPort ext w h s =
     (s\<lparr>screen_width := static_cast_float ext w, screen_height := static_cast_float ext h\<rparr>,
      [Scene_SetupViewPort w h])"

text \<open>
  \<^verbatim>\<open>Render\<close>. The status of \<^verbatim>\<open>TangoSupport_getLatestPointCloudAndNewDataFlag\<close>
  is dropped; the member \<^verbatim>\<open>render_buffer_\<close> and the local \<^verbatim>\<open>new_points\<close>
  (initialised to false) hold what the call wrote, or what they held before. The next
  statement reads through \<^verbatim>\<open>render_buffer_\<close>: with a null pointer the frame ends in
  a fault. The local \<^verbatim>\<open>color_timestamp\<close> starts at 0.0. Both matrices are computed
  before the status codes are looked at.
\<close>

definition Render ::
  "'m externals \<Rightarrow> 'm SynchronizationApplication
     \<Rightarrow> fault + ('m SynchronizationApplication \<times> 'm event list)" where
  "Render ext s =
     (let (pc_err, pc_buf, pc_new) =
            TangoSupport_getLatestPointCloudAndNewDataFlag ext (point_cloud_manager s);
          s1 = (case pc_buf of Some b \<Rightarrow> s\<lparr>render_buffer := Some b\<rparr> | None \<Rightarrow> s);
          new_points = (case pc_new of Some b \<Rightarrow> b | None \<Rightarrow> False);
          t0 = [SDK (Call_getLatestPointCloudAndNewDataFlag (point_cloud_manager s))
                    (Status pc_err)]
      in case render_buffer s1 of
           None \<Rightarrow> Inl NullPointerDereference
         | Some buf \<Rightarrow>
             let depth_timestamp = timestamp buf;
                 (tex_err, tex_time) = TangoService_updateTexture ext TANGO_CAMERA_COLOR;
                 color_timestamp = (case tex_time of Some t \<Rightarrow> t | None \<Rightarrow> 0);
                 t1 = t0 @ SDK (Call_updateTexture TANGO_CAMERA_COLOR) (Status tex_err) #
                        (if tex_err \<noteq> TANGO_SUCCESS
                         then [LOGE ''SynchronizationApplication: Failed to get a color image.'' []]
                         else []);
                 depth_frame_pair = \<lparr>base = TANGO_COORDINATE_FRAME_START_OF_SERVICE,
                                      target = TANGO_COORDINATE_FRAME_CAMERA_DEPTH\<rparr>;
                 (depth_err, pose_start_service_T_depth_camera_t0) =
                   TangoService_getPoseAtTime ext depth_timestamp depth_frame_pair;
                 t2 = t1 @ SDK (Call_getPoseAtTime depth_timestamp depth_frame_pair)
                               (Status depth_err) #
                        (if depth_err \<noteq> TANGO_SUCCESS
                         then [LOGE ''SynchronizationApplication: Could not find a valid pose at time %lf for the depth camera.''
                                 [Arg_time depth_timestamp]]
                         else []);
                 color_frame_pair = \<lparr>base = TANGO_COORDINATE_FRAME_CAMERA_COLOR,
                                      target = TANGO_COORDINATE_FRAME_START_OF_SERVICE\<rparr>;
                 (color_err, pose_color_camera_t1_T_start_service) =
                   TangoService_getPoseAtTime ext color_timestamp color_frame_pair;
                 t3 = t2 @ SDK (Call_getPoseAtTime color_timestamp color_frame_pair)
                               (Status color_err) #
                        (if color_err \<noteq> TANGO_SUCCESS
                         then [LOGE ''SynchronizationApplication: Could not find a valid pose at time %lf for the color camera.''
                                 [Arg_time color_timestamp]]
                         else []);
                 start_service_T_depth_camera_t0 =
                   GetMatrixFromPose ext pose_start_service_T_depth_camera_t0;
                 color_camera_t1_T_start_service =
                   GetMatrixFromPose ext pose_color_camera_t1_T_start_service
             in if status_code pose_color_camera_t1_T_start_service = TANGO_POSE_VALID
                then
                  if status_code pose_start_service_T_depth_camera_t0 = TANGO_POSE_VALID
                  then
                    let color_image_t1_T_depth_image_t0 =
                          mat4_mul ext color_camera_t1_T_start_service
                            start_service_T_depth_camera_t0
                    in Inr (s1,
                            t3 @
                            (if gpu_upsample s1
                             then [DepthImage_RenderDepthToTexture
                                     color_image_t1_T_depth_image_t0 buf new_points]
                             else [DepthImage_UpdateAndUpsampleDepth
                                     color_image_t1_T_depth_image_t0 buf]) @
                            [Scene_Render (color_image_GetTextureId ext)
                                          (depth_image_GetTextureId ext)])
                  else Inr (s1, t3 @ [LOGE ''Invalid pose for ss_t_depth at time: %lf''
                                        [Arg_time depth_timestamp]])
                else Inr (s1, t3 @ [LOGE ''Invalid pose for ss_t_color at time: %lf''
                                      [Arg_time color_timestamp]]))"

subsection \<open>Any operation on the object\<close>

text \<open>
  The public operations, each with its arguments, and what one of them returns. A call of
  an operation comes with the externals that answer it, so that the service may answer
  differently from one call to the next.
\<close>

datatype operation =
    Op_OnXYZijAvailable TangoXYZij
  | Op_CheckTangoVersion JNIEnv jobject "32 word"
  | Op_OnTangoServiceConnected JNIEnv jobject
  | Op_TangoSetupConfig
  | Op_TangoConnectTexture
  | Op_TangoConnectCallbacks
  | Op_TangoConnect
  | Op_TangoSetIntrinsicsAndExtrinsics
  | Op_TangoDisconnect
  | Op_InitializeGLContent
  | Op_SetViewPort "32 word" "32 word"
  | Op_Render
  | Op_SetDepthAlphaValue real
  | Op_SetGPUUpsample bool
  | Op_destructor

datatype returned = Ret_void | Ret_bool bool

definition returning_void ::
  "'m SynchronizationApplication \<times> 'm event list
     \<Rightarrow> fault + (returned \<times> 'm SynchronizationApplication \<times> 'm event list)" where
  "returning_void r = Inr (Ret_void, r)"

definition returning_bool ::
  "bool \<times> 'm SynchronizationApplication \<times> 'm event list
     \<Rightarrow> fault + (returned \<times> 'm SynchronizationApplication \<times> 'm event list)" where
  "returning_bool r = Inr (Ret_bool (fst r), snd r)"

fun perform ::
  "'m externals \<Rightarrow> operation \<Rightarrow> 'm SynchronizationApplication
     \<Rightarrow> fault + (returned \<times> 'm SynchronizationApplication \<times> 'm event list)" where
  "perform ext (Op_OnXYZijAvailable xyz_ij) s = returning_void (OnXYZijAvailable ext xyz_ij s)"
| "perform ext (Op_CheckTangoVersion env activity v) s =
     returning_bool (CheckTangoVersion ext env activity v s)"
| "perform ext (Op_OnTangoServiceConnected env binder_obj) s =
     returning_void (OnTangoServiceConnected ext env binder_obj s)"
| "perform ext Op_TangoSetupConfig s = returning_bool (TangoSetupConfig ext s)"
| "perform ext Op_TangoConnectTexture s = returning_bool (TangoConnectTexture ext s)"
| "perform ext Op_TangoConnectCallbacks s = returning_bool (TangoConnectCallbacks ext s)"
| "perform ext Op_TangoConnect s = returning_bool (TangoConnect ext s)"
| "perform ext Op_TangoSetIntrinsicsAndExtrinsics s =
     returning_bool (TangoSetIntrinsicsAndExtrinsics ext s)"
| "perform ext Op_TangoDisconnect s = returning_void (TangoDisconnect s)"
| "perform ext Op_InitializeGLContent s = returning_void (InitializeGLContent s)"
| "perform ext (Op_SetViewPort w h) s = returning_void (SetViewPort ext w h s)"
| "perform ext Op_Render s =
     (case Render ext s of Inl f \<Rightarrow> Inl f | Inr r \<Rightarrow> returning_void r)"
| "perform ext (Op_SetDepthAlphaValue alpha) s = returning_void (SetDepthAlphaValue alpha s)"
| "perform ext (Op_SetGPUUpsample on) s = returning_void (SetGPUUpsample on s, [])"
| "perform ext Op_destructor s = returning_void (destructor ext s)"

text \<open>A sequence of operations, stopping at the first fault; the traces are joined.\<close>

fun perform_all ::
  "('m externals \<times> operation) list \<Rightarrow> 'm SynchronizationApplication
     \<Rightarrow> fault + ('m SynchronizationApplication \<times> 'm event list)" where
  "perform_all [] s = Inr (s, [])"
| "perform_all ((ext, opn) # rest) s =
     (case perform ext opn s of
        Inl f \<Rightarrow> Inl f
      | Inr (r, s', t) \<Rightarrow>
          (case perform_all rest s' of
             Inl f \<Rightarrow> Inl f
           | Inr (s'', t') \<Rightarrow> Inr (s'', t @ t')))"

subsection \<open>Reading a trace\<close>

text \<open>The service calls of a trace, in order, and the pose queries among them.\<close>

fun sdk_calls :: "'m event list \<Rightarrow> sdk_call list" where
  "sdk_calls [] = []"
| "sdk_calls (SDK c r # t) = c # sdk_calls t"
| "sdk_calls (e # t) = sdk_calls t"

text \<open>The service calls of a trace, each with what it returned.\<close>

fun sdk_events :: "'m event list \<Rightarrow> (sdk_call \<times> sdk_result) list" where
  "sdk_events [] = []"
| "sdk_events (SDK c r # t) = (c, r) # sdk_events t"
| "sdk_events (e # t) = sdk_events t"

fun pose_queries :: "'m event list \<Rightarrow> (real \<times> TangoCoordinateFramePair) list" where
  "pose_queries [] = []"
| "pose_queries (SDK (Call_getPoseAtTime ts pair) r # t) = (ts, pair) # pose_queries t"
| "pose_queries (e # t) = pose_queries t"

text \<open>
  The rendering calls of a frame: the two depth operations and the scene render. The
  transforms and the new-data flags are what the depth operations were given.
\<close>

fun is_render_call :: "'m event \<Rightarrow> bool" where
  "is_render_call (DepthImage_RenderDepthToTexture m b n) = True"
| "is_render_call (DepthImage_UpdateAndUpsampleDepth m b) = True"
| "is_render_call (Scene_Render c d) = True"
| "is_render_call e = False"

definition render_calls :: "'m event list \<Rightarrow> 'm event list" where
  "render_calls t = filter is_render_call t"

fun transforms_used :: "'m event list \<Rightarrow> 'm list" where
  "transforms_used [] = []"
| "transforms_used (DepthImage_RenderDepthToTexture m b n # t) = m # transforms_used t"
| "transforms_used (DepthImage_UpdateAndUpsampleDepth m b # t) = m # transforms_used t"
| "transforms_used (e # t) = transforms_used t"

text \<open>The new-data flags the GPU depth operation was given.\<close>

fun new_data_flags :: "'m event list \<Rightarrow> bool list" where
  "new_data_flags [] = []"
| "new_data_flags (DepthImage_RenderDepthToTexture m b n # t) = n # new_data_flags t"
| "new_data_flags (e # t) = new_data_flags t"

fun is_log :: "'m event \<Rightarrow> bool" where
  "is_log (LOGE msg args) = True"
| "is_log e = False"

text \<open>The alpha value the scene was given last, if any.\<close>

fun depth_alpha_set :: "'m event list \<Rightarrow> real option" where
  "depth_alpha_set [] = None"
| "depth_alpha_set (Scene_SetDepthAlphaValue a # t) =
     (case depth_alpha_set t of None \<Rightarrow> Some a | Some b \<Rightarrow> Some b)"
| "depth_alpha_set (e # t) = depth_alpha_set t"

text \<open>
  The poses a frame works with, in the words of the description: the depth pose is the
  answer to a query at the time of the point cloud, from start of service to the depth
  camera; the colour pose the answer to a query at the time of the colour texture (0.0
  when the texture update wrote none), from the colour camera to start of service.
\<close>

definition color_time :: "'m externals \<Rightarrow> real" where
  "color_time ext =
     (case snd (TangoService_updateTexture ext TANGO_CAMERA_COLOR) of
        Some t \<Rightarrow> t | None \<Rightarrow> 0)"

definition depth_pose :: "'m externals \<Rightarrow> TangoXYZij \<Rightarrow> TangoPoseData" where
  "depth_pose ext cloud =
     snd (TangoService_getPoseAtTime ext (timestamp cloud)
            \<lparr>base = TANGO_COORDINATE_FRAME_START_OF_SERVICE,
             target = TANGO_COORDINATE_FRAME_CAMERA_DEPTH\<rparr>)"

definition color_pose :: "'m externals \<Rightarrow> TangoPoseData" where
  "color_pose ext =
     snd (TangoService_getPoseAtTime ext (color_time ext)
            \<lparr>base = TANGO_COORDINATE_FRAME_CAMERA_COLOR,
             target = TANGO_COORDINATE_FRAME_START_OF_SERVICE\<rparr>)"

text \<open>The point cloud \<^verbatim>\<open>render_buffer_\<close> points to once the latest one was fetched.\<close>

definition fetched_buffer ::
  "'m externals \<Rightarrow> 'm SynchronizationApplication \<Rightarrow> TangoXYZij option" where
  "fetched_buffer ext s =
     (case fst (snd (TangoSupport_getLatestPointCloudAndNewDataFlag ext (point_cloud_manager s))) of
        Some b \<Rightarrow> Some b
      | None \<Rightarrow> render_buffer s)"

subsection \<open>How a failed call is answered\<close>

text \<open>
  Every failed service call of the trace is followed at once by a logged line.
\<close>

fun failures_logged :: "'m event list \<Rightarrow> bool" where
  "failures_logged [] = True"
| "failures_logged (SDK c r # t) =
     ((failed r \<longrightarrow> (case t of [] \<Rightarrow> False | e # t' \<Rightarrow> is_log e)) \<and> failures_logged t)"
| "failures_logged (e # t) = failures_logged t"

text \<open>
  The three ways the file treats the result of a service call: the status is tested and
  a failure is logged; the status is tested and a failure only makes the member function
  return false; the status is not looked at. A trace treats its failures after their kind
  when each failed call of the first kind is followed at once by a logged line and each
  failed call of the second kind is the last step, with false returned; of a call of the
  third kind nothing is asked.
\<close>

datatype treatment = Logged | Returned | Dropped

fun treatment_of :: "sdk_call \<Rightarrow> treatment" where
  "treatment_of (Call_updatePointCloud m c) = Dropped"
| "treatment_of (Call_freePointCloudManager m) = Dropped"
| "treatment_of (Call_getLatestPointCloudAndNewDataFlag m) = Dropped"
| "treatment_of (Call_GetTangoVersion e a) = Returned"
| "treatment_of (Call_getConfig k) = Returned"
| "treatment_of (Call_createPointCloudManager n) = Returned"
| "treatment_of (Call_connectTextureId c i) = Returned"
| "treatment_of Call_connectOnXYZijAvailable = Returned"
| "treatment_of c = Logged"

fun failures_treated :: "returned \<Rightarrow> 'm event list \<Rightarrow> bool" where
  "failures_treated r [] = True"
| "failures_treated r (SDK c res # t) =
     ((failed res \<longrightarrow>
        (case treatment_of c of
           Logged \<Rightarrow> (case t of [] \<Rightarrow> False | e # t' \<Rightarrow> is_log e)
         | Returned \<Rightarrow> t = [] \<and> r = Ret_bool False
         | Dropped \<Rightarrow> True))
      \<and> failures_treated r t)"
| "failures_treated r (e # t) = failures_treated r t"

text \<open>
  A trace in which the first failed service call is the last step: only logged lines
  come after it. And whether a trace has a failed call at all.
\<close>

fun stops_at_failure :: "'m event list \<Rightarrow> bool" where
  "stops_at_failure [] = True"
| "stops_at_failure (SDK c r # t) =
     (if failed r then list_all is_log t else stops_at_failure t)"
| "stops_at_failure (e # t) = stops_at_failure t"

fun has_failure :: "'m event list \<Rightarrow> bool" where
  "has_failure [] = False"
| "has_failure (SDK c r # t) = (failed r \<or> has_failure t)"
| "has_failure (e # t) = has_failure t"

text \<open>
  A list of calls with their answers, cut after the first failed one: what is made of a
  sequence of calls when a failure ends it.
\<close>

fun upto_first_failure :: "(sdk_call \<times> sdk_result) list \<Rightarrow> (sdk_call \<times> sdk_result) list" where
  "upto_first_failure [] = []"
| "upto_first_failure (cr # rest) =
     cr # (if failed (snd cr) then [] else upto_first_failure rest)"

text \<open>
  The calls of the configuration step in the words of its description, each with the
  answer of the service: the default configuration; with a handle, the three flags; and,
  when the object has no point-cloud manager yet, the query for
  \<^verbatim>\<open>max_point_cloud_elements\<close> and the creation of the manager with the number
  that query wrote. This list is not the embedding of \<open>TangoSetupConfig\<close>; it is what
  the embedding is compared with.
\<close>

definition described_setup_calls ::
  "'m externals \<Rightarrow> 'm SynchronizationApplication \<Rightarrow> (sdk_call \<times> sdk_result) list" where
  "described_setup_calls ext s =
     (Call_getConfig TANGO_CONFIG_DEFAULT, Handle (TangoService_getConfig ext TANGO_CONFIG_DEFAULT)) #
     (case TangoService_getConfig ext TANGO_CONFIG_DEFAULT of
        None \<Rightarrow> []
      | Some c \<Rightarrow>
          [(Call_setBool c ''config_enable_depth'' True,
            Status (TangoConfig_setBool ext c ''config_enable_depth'' True)),
           (Call_setBool c ''config_enable_color_camera'' True,
            Status (TangoConfig_setBool ext c ''config_enable_color_camera'' True)),
           (Call_setBool c ''config_enable_low_latency_imu_integration'' True,
            Status (TangoConfig_setBool ext c ''config_enable_low_latency_imu_integration'' True))] @
          (if point_cloud_manager s = None
           then [(Call_getInt32 c ''max_point_cloud_elements'',
                  Status (fst (TangoConfig_getInt32 ext c ''max_point_cloud_elements''))),
                 (Call_createPointCloudManager
                    (snd (TangoConfig_getInt32 ext c ''max_point_cloud_elements'')),
                  Status (fst (TangoSupport_createPointCloudManager ext
                                 (snd (TangoConfig_getInt32 ext c ''max_point_cloud_elements'')))))]
           else []))"

subsection \<open>Values for concrete runs\<close>

text \<open>
  Matrices as terms: a free reading of \<^verbatim>\<open>glm::mat4\<close>, in which the two factors of
  a product and their order stay visible.
\<close>

datatype mat4_term =
    Opengl_world_T_tango_world
  | Matrix_of_pose TangoPoseData
  | Product mat4_term mat4_term

definition sample_pose :: "real \<Rightarrow> TangoCoordinateFramePair \<Rightarrow> TangoPoseData" where
  "sample_pose t pair =
     \<lparr>orientation = [0, 0, 0, 1],
      translation = [t, (if base pair = TANGO_COORDINATE_FRAME_CAMERA_COLOR then 1 else 0), 0],
      status_code = TANGO_POSE_VALID\<rparr>"

definition sample_cloud :: TangoXYZij where
  "sample_cloud = \<lparr>timestamp = 7, xyz = [(1, 2, 3)]\<rparr>"

text \<open>An earlier point cloud, the one \<^verbatim>\<open>render_buffer_\<close> may still point to.\<close>

definition old_cloud :: TangoXYZij where
  "old_cloud = \<lparr>timestamp = 3, xyz = [(4, 5, 6)]\<rparr>"

definition sample_intrinsics :: TangoCameraIntrinsics where
  "sample_intrinsics = \<lparr>width = 1280, height = 720, fx = 1000, fy = 1000, cx = 640, cy = 360\<rparr>"

text \<open>A service in which every call succeeds.\<close>

definition sample_externals :: "mat4_term externals" where
  "sample_externals =
     \<lparr>TangoSupport_updatePointCloud = (\<lambda>m c. TANGO_SUCCESS),
      TangoSupport_freePointCloudManager = (\<lambda>m. TANGO_SUCCESS),
      TangoSupport_GetTangoVersion = (\<lambda>e a. (TANGO_SUCCESS, 9377)),
      TangoService_setBinder = (\<lambda>e b. TANGO_SUCCESS),
      TangoService_getConfig = (\<lambda>k. Some 11),
      TangoConfig_setBool = (\<lambda>c k v. TANGO_SUCCESS),
      TangoConfig_getInt32 = (\<lambda>c k. (TANGO_SUCCESS, 60000)),
      TangoSupport_createPointCloudManager = (\<lambda>n. (TANGO_SUCCESS, Some 12)),
      TangoService_connectTextureId = (\<lambda>c i. TANGO_SUCCESS),
      TangoService_connectOnXYZijAvailable = TANGO_SUCCESS,
      TangoService_connect = (\<lambda>c. TANGO_SUCCESS),
      TangoService_getCameraIntrinsics = (\<lambda>c. (TANGO_SUCCESS, sample_intrinsics)),
      TangoSupport_getLatestPointCloudAndNewDataFlag =
        (\<lambda>m. (TANGO_SUCCESS, Some sample_cloud, Some True)),
      TangoService_updateTexture = (\<lambda>c. (TANGO_SUCCESS, Some 8)),
      TangoService_getPoseAtTime = (\<lambda>t pair. (TANGO_SUCCESS, sample_pose t pair)),
      GetMatrixFromPose = Matrix_of_pose,
      mat4_mul = Product,
      color_image_GetTextureId = 1,
      depth_image_GetTextureId = 2,
      static_cast_float = (\<lambda>w. real_of_int (sint w))\<rparr>"

text \<open>
  The memory an object is constructed in, its pointers null, and the object right after
  construction.
\<close>

definition sample_memory :: "mat4_term SynchronizationApplication" where
  "sample_memory =
     \<lparr>tango_config = None, point_cloud_manager = None, render_buffer = None,
      OW_T_SS = Product Opengl_world_T_tango_world Opengl_world_T_tango_world,
      gpu_upsample = True, screen_width = 0, screen_height = 0\<rparr>"

definition sample_application :: "mat4_term SynchronizationApplication" where
  "sample_application = constructor Opengl_world_T_tango_world sample_memory"

text \<open>A session: set up, connect, size the view, choose the GPU path, draw a frame.\<close>

definition sample_session :: "(mat4_term externals \<times> operation) list" where
  "sample_session =
     [(sample_externals, Op_TangoSetupConfig),
      (sample_externals, Op_TangoConnect),
      (sample_externals, Op_SetViewPort 1920 1080),
      (sample_externals, Op_OnXYZijAvailable sample_cloud),
      (sample_externals, Op_SetGPUUpsample True),
      (sample_externals, Op_Render)]"

text \<open>
  Services that fail at one call: the texture update (writing no timestamp), the pose
  query for the depth camera (the call succeeds, the pose is not valid), the second
  configuration flag, the connection, the point-cloud update, the camera calls, and the
  creation of the point-cloud manager. And a service with no new depth data, whose
  latest point cloud is still the earlier one.
\<close>

definition texture_failure_externals :: "mat4_term externals" where
  "texture_failure_externals =
     sample_externals\<lparr>TangoService_updateTexture := (\<lambda>c. (TANGO_ERROR, None))\<rparr>"

definition invalid_pose_externals :: "mat4_term externals" where
  "invalid_pose_externals =
     sample_externals\<lparr>TangoService_getPoseAtTime :=
       (\<lambda>t pair. (TANGO_SUCCESS,
          (sample_pose t pair)\<lparr>status_code :=
             (if target pair = TANGO_COORDINATE_FRAME_CAMERA_DEPTH
              then TANGO_POSE_INVALID else TANGO_POSE_VALID)\<rparr>))\<rparr>"

definition color_flag_failure_externals :: "mat4_term externals" where
  "color_flag_failure_externals =
     sample_externals\<lparr>TangoConfig_setBool :=
       (\<lambda>c k v. if k = ''config_enable_color_camera'' then TANGO_INVALID else TANGO_SUCCESS)\<rparr>"

definition connect_failure_externals :: "mat4_term externals" where
  "connect_failure_externals = sample_externals\<lparr>TangoService_connect := (\<lambda>c. TANGO_ERROR)\<rparr>"

definition update_failure_externals :: "mat4_term externals" where
  "update_failure_externals =
     sample_externals\<lparr>TangoSupport_updatePointCloud := (\<lambda>m c. TANGO_INVALID)\<rparr>"

definition intrinsics_failure_externals :: "mat4_term externals" where
  "intrinsics_failure_externals =
     sample_externals\<lparr>TangoService_getCameraIntrinsics := (\<lambda>c. (TANGO_ERROR, sample_intrinsics)),
                      TangoService_connectTextureId := (\<lambda>c i. TANGO_NO_CAMERA_PERMISSION)\<rparr>"

definition manager_failure_externals :: "mat4_term externals" where
  "manager_failure_externals =
     sample_externals\<lparr>TangoSupport_createPointCloudManager := (\<lambda>n. (TANGO_ERROR, None))\<rparr>"

definition no_new_data_externals :: "mat4_term externals" where
  "no_new_data_externals =
     sample_externals\<lparr>TangoSupport_getLatestPointCloudAndNewDataFlag :=
       (\<lambda>m. (TANGO_SUCCESS, Some old_cloud, Some False))\<rparr>"

text \<open>The object after a successful \<open>TangoSetupConfig\<close>.\<close>

definition configured_application :: "mat4_term SynchronizationApplication" where
  "configured_application = fst (snd (TangoSetupConfig sample_externals sample_application))"

subsection \<open>A frame in closed form\<close>

text \<open>
  The trace of a frame that returns, written out as one list: the fetch, the texture
  update, the two pose queries (each with its logged line on a failure) and then either
  the rendering calls or one logged line. That \<open>Render\<close> produces this trace whenever
  a point cloud is at hand after the fetch is proved below (\<open>Render_fetched\<close>); no
  property is read off this definition without that proof.
\<close>

definition frame_trace ::
  "'m externals \<Rightarrow> 'm SynchronizationApplication \<Rightarrow> TangoXYZij \<Rightarrow> 'm event list" where
  "frame_trace ext s cloud =
     [SDK (Call_getLatestPointCloudAndNewDataFlag (point_cloud_manager s))
          (Status (fst (TangoSupport_getLatestPointCloudAndNewDataFlag ext (point_cloud_manager s))))] @
     SDK (Call_updateTexture TANGO_CAMERA_COLOR)
         (Status (fst (TangoService_updateTexture ext TANGO_CAMERA_COLOR))) #
       (if fst (TangoService_updateTexture ext TANGO_CAMERA_COLOR) \<noteq> TANGO_SUCCESS
        then [LOGE ''SynchronizationApplication: Failed to get a color image.'' []] else []) @
     SDK (Call_getPoseAtTime (timestamp cloud)
            \<lparr>base = TANGO_COORDINATE_FRAME_START_OF_SERVICE,
             target = TANGO_COORDINATE_FRAME_CAMERA_DEPTH\<rparr>)
         (Status (fst (TangoService_getPoseAtTime ext (timestamp cloud)
            \<lparr>base = TANGO_COORDINATE_FRAME_START_OF_SERVICE,
             target = TANGO_COORDINATE_FRAME_CAMERA_DEPTH\<rparr>))) #
       (if fst (TangoService_getPoseAtTime ext (timestamp cloud)
            \<lparr>base = TANGO_COORDINATE_FRAME_START_OF_SERVICE,
             target = TANGO_COORDINATE_FRAME_CAMERA_DEPTH\<rparr>) \<noteq> TANGO_SUCCESS
        then [LOGE ''SynchronizationApplication: Could not find a valid pose at time %lf for the depth camera.''
                [Arg_time (timestamp cloud)]] else []) @
     SDK (Call_getPoseAtTime (color_time ext)
            \<lparr>base = TANGO_COORDINATE_FRAME_CAMERA_COLOR,
             target = TANGO_COORDINATE_FRAME_START_OF_SERVICE\<rparr>)
         (Status (fst (TangoService_getPoseAtTime ext (color_time ext)
            \<lparr>base = TANGO_COORDINATE_FRAME_CAMERA_COLOR,
             target = TANGO_COORDINATE_FRAME_START_OF_SERVICE\<rparr>))) #
       (if fst (TangoService_getPoseAtTime ext (color_time ext)
            \<lparr>base = TANGO_COORDINATE_FRAME_CAMERA_COLOR,
             target = TANGO_COORDINATE_FRAME_START_OF_SERVICE\<rparr>) \<noteq> TANGO_SUCCESS
        then [LOGE ''SynchronizationApplication: Could not find a valid pose at time %lf for the color camera.''
                [Arg_time (color_time ext)]] else []) @
     (if status_code (color_pose ext) = TANGO_POSE_VALID
      then if status_code (depth_pose ext cloud) = TANGO_POSE_VALID
           then [if gpu_upsample s
                 then DepthImage_RenderDepthToTexture
                        (mat4_mul ext (GetMatrixFromPose ext (color_pose ext))
                           (GetMatrixFromPose ext (depth_pose ext cloud)))
                        cloud
                        (case snd (snd (TangoSupport_getLatestPointCloudAndNewDataFlag ext
                                          (point_cloud_manager s))) of
                           Some b \<Rightarrow> b | None \<Rightarrow> False)
                 else DepthImage_UpdateAndUpsampleDepth
                        (mat4_mul ext (GetMatrixFromPose ext (color_pose ext))
                           (GetMatrixFromPose ext (depth_pose ext cloud)))
                        cloud,
                 Scene_Render (color_image_GetTextureId ext) (depth_image_GetTextureId ext)]
           else [LOGE ''Invalid pose for ss_t_depth at time: %lf'' [Arg_time (timestamp cloud)]]
      else [LOGE ''Invalid pose for ss_t_color at time: %lf'' [Arg_time (color_time ext)]])"

section \<open>Properties\<close>

subsection \<open>Shared facts\<close>

lemmas member_defs =
  OnXYZijAvailable_def CheckTangoVersion_def OnTangoServiceConnected_def TangoSetupConfig_def
  TangoConnectTexture_def TangoConnectCallbacks_def TangoConnect_def
  TangoSetIntrinsicsAndExtrinsics_def TangoDisconnect_def InitializeGLContent_def SetViewPort_def
  Render_def SetDepthAlphaValue_def SetGPUUpsample_def destructor_def constructor_def
  returning_void_def returning_bool_def

lemmas sample_defs =
  sample_externals_def sample_application_def sample_memory_def sample_cloud_def
  sample_pose_def sample_intrinsics_def sample_session_def

lemmas frame_defs = fetched_buffer_def color_time_def color_pose_def depth_pose_def

lemma pose_queries_append: "pose_queries (t @ u) = pose_queries t @ pose_queries u"
  by (induction t rule: pose_queries.induct) simp_all

lemma transforms_used_append: "transforms_used (t @ u) = transforms_used t @ transforms_used u"
  by (induction t rule: transforms_used.induct) simp_all

lemma depth_alpha_set_append:
  "depth_alpha_set (t @ u) =
     (case depth_alpha_set u of None \<Rightarrow> depth_alpha_set t | Some b \<Rightarrow> Some b)"
  by (induction t rule: depth_alpha_set.induct) (simp_all split: option.splits)

lemma new_data_flags_append: "new_data_flags (t @ u) = new_data_flags t @ new_data_flags u"
  by (induction t rule: new_data_flags.induct) simp_all

lemma Render_fetched:
  assumes "fetched_buffer ext s = Some cloud"
  shows "Render ext s = Inr (s\<lparr>render_buffer := Some cloud\<rparr>, frame_trace ext s cloud)"
proof -
  obtain pc_err pc_buf pc_new where pc:
    "TangoSupport_getLatestPointCloudAndNewDataFlag ext (point_cloud_manager s) =
       (pc_err, pc_buf, pc_new)"
    by (cases "TangoSupport_getLatestPointCloudAndNewDataFlag ext (point_cloud_manager s)") auto
  obtain tex_err tex_time where tex:
    "TangoService_updateTexture ext TANGO_CAMERA_COLOR = (tex_err, tex_time)"
    by (cases "TangoService_updateTexture ext TANGO_CAMERA_COLOR") auto
  have rb: "render_buffer (case pc_buf of Some b \<Rightarrow> s\<lparr>render_buffer := Some b\<rparr> | None \<Rightarrow> s)
              = Some cloud"
    using assms pc by (simp add: fetched_buffer_def split: option.splits)
  have s1: "(case pc_buf of Some b \<Rightarrow> s\<lparr>render_buffer := Some b\<rparr> | None \<Rightarrow> s)
              = s\<lparr>render_buffer := Some cloud\<rparr>"
    using assms pc by (simp add: fetched_buffer_def split: option.splits)
  show ?thesis
    unfolding Render_def frame_trace_def Let_def pc tex prod.case rb s1
    by (cases "status_code (color_pose ext) = TANGO_POSE_VALID";
        cases "status_code (depth_pose ext cloud) = TANGO_POSE_VALID";
        cases "gpu_upsample s";
        simp add: tex split_beta color_time_def color_pose_def depth_pose_def
             split del: if_split cong del: if_weak_cong)
qed

lemma Render_fault:
  "fetched_buffer ext s = None \<Longrightarrow> Render ext s = Inl NullPointerDereference"
  by (auto simp: Render_def fetched_buffer_def Let_def split: prod.splits option.splits)

lemma Render_returns:
  assumes "Render ext s = Inr (s', t)"
  obtains cloud where "fetched_buffer ext s = Some cloud"
    and "s' = s\<lparr>render_buffer := Some cloud\<rparr>" and "t = frame_trace ext s cloud"
proof (cases "fetched_buffer ext s")
  case None
  with assms Render_fault [of ext s] show ?thesis by simp
next
  case (Some cloud)
  with assms Render_fetched [of ext s cloud] that show ?thesis by simp
qed

lemma pose_queries_frame:
  "pose_queries (frame_trace ext s cloud) =
     [(timestamp cloud, \<lparr>base = TANGO_COORDINATE_FRAME_START_OF_SERVICE,
                          target = TANGO_COORDINATE_FRAME_CAMERA_DEPTH\<rparr>),
      (color_time ext, \<lparr>base = TANGO_COORDINATE_FRAME_CAMERA_COLOR,
                         target = TANGO_COORDINATE_FRAME_START_OF_SERVICE\<rparr>)]"
  by (simp add: frame_trace_def pose_queries_append)

lemma transforms_used_frame:
  "transforms_used (frame_trace ext s cloud) =
     (if status_code (color_pose ext) = TANGO_POSE_VALID \<and>
         status_code (depth_pose ext cloud) = TANGO_POSE_VALID
      then [mat4_mul ext (GetMatrixFromPose ext (color_pose ext))
              (GetMatrixFromPose ext (depth_pose ext cloud))]
      else [])"
  by (simp add: frame_trace_def transforms_used_append)

lemma render_calls_frame:
  "render_calls (frame_trace ext s cloud) =
     (if status_code (color_pose ext) = TANGO_POSE_VALID \<and>
         status_code (depth_pose ext cloud) = TANGO_POSE_VALID
      then [if gpu_upsample s
            then DepthImage_RenderDepthToTexture
                   (mat4_mul ext (GetMatrixFromPose ext (color_pose ext))
                      (GetMatrixFromPose ext (depth_pose ext cloud)))
                   cloud
                   (case snd (snd (TangoSupport_getLatestPointCloudAndNewDataFlag ext
                                     (point_cloud_manager s))) of
                      Some b \<Rightarrow> b | None \<Rightarrow> False)
            else DepthImage_UpdateAndUpsampleDepth
                   (mat4_mul ext (GetMatrixFromPose ext (color_pose ext))
                      (GetMatrixFromPose ext (depth_pose ext cloud)))
                   cloud,
            Scene_Render (color_image_GetTextureId ext) (depth_image_GetTextureId ext)]
      else [])"
  by (simp add: frame_trace_def render_calls_def)

lemma sdk_calls_frame:
  "sdk_calls (frame_trace ext s cloud) =
     [Call_getLatestPointCloudAndNewDataFlag (point_cloud_manager s),
      Call_updateTexture TANGO_CAMERA_COLOR,
      Call_getPoseAtTime (timestamp cloud)
        \<lparr>base = TANGO_COORDINATE_FRAME_START_OF_SERVICE,
         target = TANGO_COORDINATE_FRAME_CAMERA_DEPTH\<rparr>,
      Call_getPoseAtTime (color_time ext)
        \<lparr>base = TANGO_COORDINATE_FRAME_CAMERA_COLOR,
         target = TANGO_COORDINATE_FRAME_START_OF_SERVICE\<rparr>]"
  by (simp add: frame_trace_def)

lemma new_data_flags_frame:
  "new_data_flags (frame_trace ext s cloud) =
     (if gpu_upsample s \<and> render_calls (frame_trace ext s cloud) \<noteq> []
      then [case snd (snd (TangoSupport_getLatestPointCloudAndNewDataFlag ext
                             (point_cloud_manager s))) of
              Some b \<Rightarrow> b | None \<Rightarrow> False]
      else [])"
  unfolding render_calls_frame by (simp add: frame_trace_def new_data_flags_append)

lemma failures_treated_frame: "failures_treated r (frame_trace ext s cloud)"
  by (simp add: frame_trace_def)

lemma perform_keeps_OW_T_SS:
  assumes "perform ext opn s = Inr (r, s', t)"
  shows "OW_T_SS s' = OW_T_SS s"
proof (cases opn)
  case Op_TangoSetupConfig
  with assms show ?thesis
    by (auto simp: member_defs Let_def split: prod.splits option.splits if_splits)
next
  case Op_Render
  with assms obtain t' where "Render ext s = Inr (s', t')"
    by (auto simp: returning_void_def split: sum.splits)
  then show ?thesis
    by (elim Render_returns) simp
qed (use assms in \<open>auto simp: member_defs Let_def split: prod.splits option.splits if_splits\<close>)

subsection \<open>The pose chain of a frame\<close>

text \<open>
  Claim C1. In \<open>Render\<close> the depth pose is queried at the time of the point cloud with
  the frame pair (start of service, depth camera), the colour pose at the time of the
  colour texture with the pair (colour camera, start of service). The transform handed
  to the depth operation is the product of the colour matrix and the depth matrix, in
  this order, and a transform is used only when both poses have the status
  \<open>TANGO_POSE_VALID\<close>.
\<close>

theorem Render_transform:
  assumes "fetched_buffer ext s = Some cloud"
  shows "\<exists>t. Render ext s = Inr (s\<lparr>render_buffer := Some cloud\<rparr>, t) \<and>
           pose_queries t =
             [(timestamp cloud, \<lparr>base = TANGO_COORDINATE_FRAME_START_OF_SERVICE,
                                  target = TANGO_COORDINATE_FRAME_CAMERA_DEPTH\<rparr>),
              (color_time ext, \<lparr>base = TANGO_COORDINATE_FRAME_CAMERA_COLOR,
                                 target = TANGO_COORDINATE_FRAME_START_OF_SERVICE\<rparr>)] \<and>
           transforms_used t =
             (if status_code (color_pose ext) = TANGO_POSE_VALID \<and>
                 status_code (depth_pose ext cloud) = TANGO_POSE_VALID
              then [mat4_mul ext (GetMatrixFromPose ext (color_pose ext))
                      (GetMatrixFromPose ext (depth_pose ext cloud))]
              else [])"
  using Render_fetched [OF assms] pose_queries_frame [of ext s cloud]
    transforms_used_frame [of ext s cloud]
  by blast

theorem Render_transform_witness:
  "fetched_buffer sample_externals sample_application = Some sample_cloud \<and>
   pose_queries (snd (projr (Render sample_externals sample_application))) =
     [(7, \<lparr>base = TANGO_COORDINATE_FRAME_START_OF_SERVICE,
           target = TANGO_COORDINATE_FRAME_CAMERA_DEPTH\<rparr>),
      (8, \<lparr>base = TANGO_COORDINATE_FRAME_CAMERA_COLOR,
           target = TANGO_COORDINATE_FRAME_START_OF_SERVICE\<rparr>)] \<and>
   transforms_used (snd (projr (Render sample_externals sample_application))) =
     [Product
        (Matrix_of_pose \<lparr>orientation = [0, 0, 0, 1], translation = [8, 1, 0],
                         status_code = TANGO_POSE_VALID\<rparr>)
        (Matrix_of_pose \<lparr>orientation = [0, 0, 0, 1], translation = [7, 0, 0],
                         status_code = TANGO_POSE_VALID\<rparr>)]"
proof -
  have f: "fetched_buffer sample_externals sample_application = Some sample_cloud"
    by (simp add: fetched_buffer_def sample_defs constructor_def)
  from Render_transform [OF f] f show ?thesis
    by (auto simp: frame_defs sample_defs constructor_def)
qed

subsection \<open>Failures inside a frame\<close>

text \<open>
  Claim C2 says that a frame in which a service call fails makes no rendering call. It
  does not hold: when the texture update returns \<open>TANGO_ERROR\<close> and writes no
  timestamp, the colour pose is queried at time 0.0, and with both poses valid the frame
  goes on to update the depth texture and to render the scene.
\<close>

theorem Render_after_failed_texture_update_counterexample:
  "Render texture_failure_externals sample_application =
     Inr (sample_application\<lparr>render_buffer := Some sample_cloud\<rparr>,
          [SDK (Call_getLatestPointCloudAndNewDataFlag None) (Status TANGO_SUCCESS),
           SDK (Call_updateTexture TANGO_CAMERA_COLOR) (Status TANGO_ERROR),
           LOGE ''SynchronizationApplication: Failed to get a color image.'' [],
           SDK (Call_getPoseAtTime 7
                  \<lparr>base = TANGO_COORDINATE_FRAME_START_OF_SERVICE,
                   target = TANGO_COORDINATE_FRAME_CAMERA_DEPTH\<rparr>) (Status TANGO_SUCCESS),
           SDK (Call_getPoseAtTime 0
                  \<lparr>base = TANGO_COORDINATE_FRAME_CAMERA_COLOR,
                   target = TANGO_COORDINATE_FRAME_START_OF_SERVICE\<rparr>) (Status TANGO_SUCCESS),
           DepthImage_UpdateAndUpsampleDepth
             (Product
                (Matrix_of_pose \<lparr>orientation = [0, 0, 0, 1], translation = [0, 1, 0],
                                 status_code = TANGO_POSE_VALID\<rparr>)
                (Matrix_of_pose \<lparr>orientation = [0, 0, 0, 1], translation = [7, 0, 0],
                                 status_code = TANGO_POSE_VALID\<rparr>))
             sample_cloud,
           Scene_Render 1 2]) \<and>
   has_failure (snd (projr (Render texture_failure_externals sample_application))) \<and>
   render_calls (snd (projr (Render texture_failure_externals sample_application))) \<noteq> []"
  by (simp add: Render_def render_calls_def Let_def texture_failure_externals_def sample_defs
        constructor_def)

text \<open>
  Claim C2, amended. With a point cloud at hand after the fetch, \<open>Render\<close> returns
  whatever the service calls answered. After the fetch it makes the texture update and
  the two pose queries, in this order, and each of these three that returns a status
  other than success is followed at once by a logged line; nothing is logged in a frame
  where the three succeed and both poses are valid. The frame has no rendering call
  exactly when the colour pose or the depth pose has a status code other than
  \<open>TANGO_POSE_VALID\<close>: a failed call alone does not skip the rendering. Nothing is said
  of the status of the fetch itself.
\<close>

theorem Render_skips_on_invalid_pose_only:
  assumes "fetched_buffer ext s = Some cloud"
  shows "\<exists>rest.
           Render ext s =
             Inr (s\<lparr>render_buffer := Some cloud\<rparr>,
                  SDK (Call_getLatestPointCloudAndNewDataFlag (point_cloud_manager s))
                      (Status (fst (TangoSupport_getLatestPointCloudAndNewDataFlag ext
                                      (point_cloud_manager s)))) # rest) \<and>
           sdk_events rest =
             [(Call_updateTexture TANGO_CAMERA_COLOR,
               Status (fst (TangoService_updateTexture ext TANGO_CAMERA_COLOR))),
              (Call_getPoseAtTime (timestamp cloud)
                 \<lparr>base = TANGO_COORDINATE_FRAME_START_OF_SERVICE,
                  target = TANGO_COORDINATE_FRAME_CAMERA_DEPTH\<rparr>,
               Status (fst (TangoService_getPoseAtTime ext (timestamp cloud)
                 \<lparr>base = TANGO_COORDINATE_FRAME_START_OF_SERVICE,
                  target = TANGO_COORDINATE_FRAME_CAMERA_DEPTH\<rparr>))),
              (Call_getPoseAtTime (color_time ext)
                 \<lparr>base = TANGO_COORDINATE_FRAME_CAMERA_COLOR,
                  target = TANGO_COORDINATE_FRAME_START_OF_SERVICE\<rparr>,
               Status (fst (TangoService_getPoseAtTime ext (color_time ext)
                 \<lparr>base = TANGO_COORDINATE_FRAME_CAMERA_COLOR,
                  target = TANGO_COORDINATE_FRAME_START_OF_SERVICE\<rparr>)))] \<and>
           failures_logged rest \<and>
           (filter is_log rest = []) =
             (\<not> has_failure rest \<and> status_code (color_pose ext) = TANGO_POSE_VALID \<and>
              status_code (depth_pose ext cloud) = TANGO_POSE_VALID) \<and>
           (render_calls rest = []) =
             (status_code (color_pose ext) \<noteq> TANGO_POSE_VALID \<or>
              status_code (depth_pose ext cloud) \<noteq> TANGO_POSE_VALID)"
proof -
  let ?rest = "tl (frame_trace ext s cloud)"
  have whole: "frame_trace ext s cloud =
      SDK (Call_getLatestPointCloudAndNewDataFlag (point_cloud_manager s))
          (Status (fst (TangoSupport_getLatestPointCloudAndNewDataFlag ext
                          (point_cloud_manager s)))) # ?rest"
    by (simp add: frame_trace_def)
  have calls: "sdk_events ?rest =
             [(Call_updateTexture TANGO_CAMERA_COLOR,
               Status (fst (TangoService_updateTexture ext TANGO_CAMERA_COLOR))),
              (Call_getPoseAtTime (timestamp cloud)
                 \<lparr>base = TANGO_COORDINATE_FRAME_START_OF_SERVICE,
                  target = TANGO_COORDINATE_FRAME_CAMERA_DEPTH\<rparr>,
               Status (fst (TangoService_getPoseAtTime ext (timestamp cloud)
                 \<lparr>base = TANGO_COORDINATE_FRAME_START_OF_SERVICE,
                  target = TANGO_COORDINATE_FRAME_CAMERA_DEPTH\<rparr>))),
              (Call_getPoseAtTime (color_time ext)
                 \<lparr>base = TANGO_COORDINATE_FRAME_CAMERA_COLOR,
                  target = TANGO_COORDINATE_FRAME_START_OF_SERVICE\<rparr>,
               Status (fst (TangoService_getPoseAtTime ext (color_time ext)
                 \<lparr>base = TANGO_COORDINATE_FRAME_CAMERA_COLOR,
                  target = TANGO_COORDINATE_FRAME_START_OF_SERVICE\<rparr>)))]"
    by (simp add: frame_trace_def)
  have logged: "failures_logged ?rest"
    by (simp add: frame_trace_def)
  have quiet: "(filter is_log ?rest = []) =
             (\<not> has_failure ?rest \<and> status_code (color_pose ext) = TANGO_POSE_VALID \<and>
              status_code (depth_pose ext cloud) = TANGO_POSE_VALID)"
    by (simp add: frame_trace_def)
  have skipped: "(render_calls ?rest = []) =
             (status_code (color_pose ext) \<noteq> TANGO_POSE_VALID \<or>
              status_code (depth_pose ext cloud) \<noteq> TANGO_POSE_VALID)"
    by (simp add: frame_trace_def render_calls_def)
  from Render_fetched [OF assms] whole have
    "Render ext s = Inr (s\<lparr>render_buffer := Some cloud\<rparr>,
                  SDK (Call_getLatestPointCloudAndNewDataFlag (point_cloud_manager s))
                      (Status (fst (TangoSupport_getLatestPointCloudAndNewDataFlag ext
                                      (point_cloud_manager s)))) # ?rest)"
    by simp
  with calls logged quiet skipped show ?thesis by blast
qed

theorem Render_skips_on_invalid_pose_only_witness:
  "fetched_buffer invalid_pose_externals sample_application = Some sample_cloud \<and>
   status_code (color_pose invalid_pose_externals) = TANGO_POSE_VALID \<and>
   status_code (depth_pose invalid_pose_externals sample_cloud) = TANGO_POSE_INVALID \<and>
   Render invalid_pose_externals sample_application =
     Inr (sample_application\<lparr>render_buffer := Some sample_cloud\<rparr>,
          [SDK (Call_getLatestPointCloudAndNewDataFlag None) (Status TANGO_SUCCESS),
           SDK (Call_updateTexture TANGO_CAMERA_COLOR) (Status TANGO_SUCCESS),
           SDK (Call_getPoseAtTime 7
                  \<lparr>base = TANGO_COORDINATE_FRAME_START_OF_SERVICE,
                   target = TANGO_COORDINATE_FRAME_CAMERA_DEPTH\<rparr>) (Status TANGO_SUCCESS),
           SDK (Call_getPoseAtTime 8
                  \<lparr>base = TANGO_COORDINATE_FRAME_CAMERA_COLOR,
                   target = TANGO_COORDINATE_FRAME_START_OF_SERVICE\<rparr>) (Status TANGO_SUCCESS),
           LOGE ''Invalid pose for ss_t_depth at time: %lf'' [Arg_time 7]]) \<and>
   fetched_buffer texture_failure_externals sample_application = Some sample_cloud \<and>
   status_code (color_pose texture_failure_externals) = TANGO_POSE_VALID \<and>
   status_code (depth_pose texture_failure_externals sample_cloud) = TANGO_POSE_VALID \<and>
   failures_logged (tl (snd (projr (Render texture_failure_externals sample_application)))) \<and>
   has_failure (tl (snd (projr (Render texture_failure_externals sample_application)))) \<and>
   filter is_log (tl (snd (projr (Render texture_failure_externals sample_application)))) =
     [LOGE ''SynchronizationApplication: Failed to get a color image.'' []] \<and>
   length (render_calls (tl (snd (projr (Render texture_failure_externals sample_application))))) = 2"
proof -
  have f: "fetched_buffer invalid_pose_externals sample_application = Some sample_cloud"
    by (simp add: fetched_buffer_def invalid_pose_externals_def sample_defs constructor_def)
  have g: "fetched_buffer texture_failure_externals sample_application = Some sample_cloud"
    by (simp add: fetched_buffer_def texture_failure_externals_def sample_defs constructor_def)
  have skipped: "Render invalid_pose_externals sample_application =
     Inr (sample_application\<lparr>render_buffer := Some sample_cloud\<rparr>,
          [SDK (Call_getLatestPointCloudAndNewDataFlag None) (Status TANGO_SUCCESS),
           SDK (Call_updateTexture TANGO_CAMERA_COLOR) (Status TANGO_SUCCESS),
           SDK (Call_getPoseAtTime 7
                  \<lparr>base = TANGO_COORDINATE_FRAME_START_OF_SERVICE,
                   target = TANGO_COORDINATE_FRAME_CAMERA_DEPTH\<rparr>) (Status TANGO_SUCCESS),
           SDK (Call_getPoseAtTime 8
                  \<lparr>base = TANGO_COORDINATE_FRAME_CAMERA_COLOR,
                   target = TANGO_COORDINATE_FRAME_START_OF_SERVICE\<rparr>) (Status TANGO_SUCCESS),
           LOGE ''Invalid pose for ss_t_depth at time: %lf'' [Arg_time 7]])"
    using Render_skips_on_invalid_pose_only [OF f]
    by (simp add: Render_def Let_def invalid_pose_externals_def sample_defs constructor_def)
  have poses: "status_code (color_pose invalid_pose_externals) = TANGO_POSE_VALID"
    "status_code (depth_pose invalid_pose_externals sample_cloud) = TANGO_POSE_INVALID"
    "status_code (color_pose texture_failure_externals) = TANGO_POSE_VALID"
    "status_code (depth_pose texture_failure_externals sample_cloud) = TANGO_POSE_VALID"
    by (simp_all add: frame_defs invalid_pose_externals_def texture_failure_externals_def
          sample_defs)
  have shown: "failures_logged (tl (snd (projr (Render texture_failure_externals sample_application))))"
    "has_failure (tl (snd (projr (Render texture_failure_externals sample_application))))"
    "filter is_log (tl (snd (projr (Render texture_failure_externals sample_application)))) =
       [LOGE ''SynchronizationApplication: Failed to get a color image.'' []]"
    "length (render_calls (tl (snd (projr (Render texture_failure_externals sample_application))))) = 2"
    using Render_skips_on_invalid_pose_only [OF g]
    by (simp_all add: Render_def render_calls_def Let_def texture_failure_externals_def
          sample_defs constructor_def)
  from f g skipped poses shown show ?thesis by blast
qed

subsection \<open>Which failures are logged\<close>

text \<open>
  Claim C3 says that every service call has its status checked and a failure logged. It
  does not hold: \<open>OnXYZijAvailable\<close> drops the status of
  \<^verbatim>\<open>TangoSupport_updatePointCloud\<close>, and a failure of it leaves no line in the log.
\<close>

theorem OnXYZijAvailable_failure_not_logged_counterexample:
  "OnXYZijAvailable update_failure_externals sample_cloud configured_application =
     (configured_application,
      [SDK (Call_updatePointCloud (Some 12) sample_cloud) (Status TANGO_INVALID)]) \<and>
   \<not> failures_logged
       (snd (OnXYZijAvailable update_failure_externals sample_cloud configured_application))"
  by (simp add: OnXYZijAvailable_def TangoSetupConfig_def SetDepthAlphaValue_def
        SetGPUUpsample_def Let_def configured_application_def update_failure_externals_def
        sample_defs constructor_def)

text \<open>
  Claim C3, amended. Every failed service call of an operation that returns is treated
  after its kind (\<open>treatment_of\<close>): a failed \<^verbatim>\<open>setBinder\<close>, \<^verbatim>\<open>setBool\<close>,
  \<^verbatim>\<open>getInt32\<close>, \<^verbatim>\<open>connect\<close>, \<^verbatim>\<open>getCameraIntrinsics\<close>,
  \<^verbatim>\<open>updateTexture\<close> or \<^verbatim>\<open>getPoseAtTime\<close> is followed at once by a logged
  line; a failed \<^verbatim>\<open>GetTangoVersion\<close>, \<^verbatim>\<open>getConfig\<close>,
  \<^verbatim>\<open>createPointCloudManager\<close>, \<^verbatim>\<open>connectTextureId\<close> or
  \<^verbatim>\<open>connectOnXYZijAvailable\<close> is the last step of the member function, which returns
  false and logs nothing. Nothing is said of \<^verbatim>\<open>updatePointCloud\<close>,
  \<^verbatim>\<open>getLatestPointCloudAndNewDataFlag\<close> and \<^verbatim>\<open>freePointCloudManager\<close>, whose
  status the file does not read.
\<close>

theorem failures_treated_by_kind:
  assumes "perform ext opn s = Inr (r, s', t)"
  shows "failures_treated r t"
proof (cases opn)
  case Op_TangoSetupConfig
  with assms show ?thesis
    by (auto simp: returning_bool_def TangoSetupConfig_def SetDepthAlphaValue_def
          SetGPUUpsample_def Let_def split: prod.splits option.splits if_splits)
next
  case Op_Render
  with assms obtain s1 where "Render ext s = Inr (s1, t)"
    by (auto simp: returning_void_def split: sum.splits)
  then show ?thesis
    by (elim Render_returns) (simp add: failures_treated_frame)
qed (use assms in \<open>auto simp: member_defs Let_def split: prod.splits option.splits if_splits\<close>)

theorem failures_treated_by_kind_witness:
  "perform intrinsics_failure_externals Op_TangoSetIntrinsicsAndExtrinsics configured_application =
     Inr (Ret_bool False, configured_application,
          [SDK (Call_getCameraIntrinsics TANGO_CAMERA_COLOR) (Status TANGO_ERROR),
           LOGE ''SynchronizationApplication: Failed to get the intrinsics for the colorcamera.'' []]) \<and>
   failures_treated (Ret_bool False)
     [SDK (Call_getCameraIntrinsics TANGO_CAMERA_COLOR) (Status TANGO_ERROR),
      LOGE ''SynchronizationApplication: Failed to get the intrinsics for the colorcamera.'' []
        :: mat4_term event] \<and>
   perform intrinsics_failure_externals Op_TangoConnectTexture configured_application =
     Inr (Ret_bool False, configured_application,
          [SDK (Call_connectTextureId TANGO_CAMERA_COLOR 1) (Status TANGO_NO_CAMERA_PERMISSION)]) \<and>
   failures_treated (Ret_bool False)
     [SDK (Call_connectTextureId TANGO_CAMERA_COLOR 1) (Status TANGO_NO_CAMERA_PERMISSION)
        :: mat4_term event]"
proof -
  have a: "perform intrinsics_failure_externals Op_TangoSetIntrinsicsAndExtrinsics
             configured_application =
     Inr (Ret_bool False, configured_application,
          [SDK (Call_getCameraIntrinsics TANGO_CAMERA_COLOR) (Status TANGO_ERROR),
           LOGE ''SynchronizationApplication: Failed to get the intrinsics for the colorcamera.'' []])"
    by (simp add: returning_bool_def TangoSetIntrinsicsAndExtrinsics_def Let_def
          intrinsics_failure_externals_def sample_externals_def)
  have b: "perform intrinsics_failure_externals Op_TangoConnectTexture configured_application =
     Inr (Ret_bool False, configured_application,
          [SDK (Call_connectTextureId TANGO_CAMERA_COLOR 1) (Status TANGO_NO_CAMERA_PERMISSION)])"
    by (simp add: returning_bool_def TangoConnectTexture_def Let_def
          intrinsics_failure_externals_def sample_externals_def)
  from failures_treated_by_kind [OF a] failures_treated_by_kind [OF b] a b
  show ?thesis by blast
qed

subsection \<open>Failures while setting up\<close>

text \<open>
  Claim C4. Called with a null configuration handle, \<open>TangoSetupConfig\<close> makes the
  calls of its description in their order (the default configuration, the three flags,
  the query for \<^verbatim>\<open>max_point_cloud_elements\<close>, the creation of the point-cloud
  manager), up to and including the first one that fails and none after it, and returns
  true exactly when none of them fails. \<open>TangoConnect\<close> makes the one call that
  connects and returns true exactly when it succeeds. In both, whatever the handle, the
  function returns false exactly when a call of its trace failed, and nothing but a
  logged line comes after the failed call.
\<close>

theorem setup_failure_aborts:
  "(TangoSetupConfig ext s = (ok, s', t) \<longrightarrow>
      stops_at_failure t \<and> ok = (\<not> has_failure t) \<and>
      (\<exists>c n. prefix (sdk_calls t)
         [Call_getConfig TANGO_CONFIG_DEFAULT,
          Call_setBool c ''config_enable_depth'' True,
          Call_setBool c ''config_enable_color_camera'' True,
          Call_setBool c ''config_enable_low_latency_imu_integration'' True,
          Call_getInt32 c ''max_point_cloud_elements'',
          Call_createPointCloudManager n]) \<and>
      (tango_config s = None \<longrightarrow>
         sdk_events t = upto_first_failure (described_setup_calls ext s) \<and>
         ok = list_all (\<lambda>cr. \<not> failed (snd cr)) (described_setup_calls ext s))) \<and>
   (TangoConnect ext s = (ok, s', t) \<longrightarrow>
      stops_at_failure t \<and> ok = (\<not> has_failure t) \<and>
      sdk_calls t = [Call_connect (tango_config s)] \<and>
      sdk_events t =
        [(Call_connect (tango_config s), Status (TangoService_connect ext (tango_config s)))] \<and>
      ok = (TangoService_connect ext (tango_config s) = TANGO_SUCCESS))"
proof (intro conjI impI)
  assume run: "TangoConnect ext s = (ok, s', t)"
  then show "stops_at_failure t" "ok = (\<not> has_failure t)"
    "sdk_calls t = [Call_connect (tango_config s)]"
    "sdk_events t =
        [(Call_connect (tango_config s), Status (TangoService_connect ext (tango_config s)))]"
    "ok = (TangoService_connect ext (tango_config s) = TANGO_SUCCESS)"
    by (auto simp: TangoConnect_def Let_def split: if_splits)
next
  assume run: "TangoSetupConfig ext s = (ok, s', t)"
  then show "stops_at_failure t"
    by (auto simp: TangoSetupConfig_def SetDepthAlphaValue_def SetGPUUpsample_def Let_def
          split: prod.splits option.splits if_splits)
  from run show "ok = (\<not> has_failure t)"
    by (auto simp: TangoSetupConfig_def SetDepthAlphaValue_def SetGPUUpsample_def Let_def
          split: prod.splits option.splits if_splits)
  from run show "\<exists>c n. prefix (sdk_calls t)
         [Call_getConfig TANGO_CONFIG_DEFAULT,
          Call_setBool c ''config_enable_depth'' True,
          Call_setBool c ''config_enable_color_camera'' True,
          Call_setBool c ''config_enable_low_latency_imu_integration'' True,
          Call_getInt32 c ''max_point_cloud_elements'',
          Call_createPointCloudManager n]"
    by (auto simp: TangoSetupConfig_def SetDepthAlphaValue_def SetGPUUpsample_def Let_def
          split: prod.splits option.splits if_splits)
  assume null: "tango_config s = None"
  with run show "sdk_events t = upto_first_failure (described_setup_calls ext s)"
    by (auto simp: TangoSetupConfig_def SetDepthAlphaValue_def SetGPUUpsample_def Let_def
          described_setup_calls_def split: prod.splits option.splits if_splits)
  from run null show "ok = list_all (\<lambda>cr. \<not> failed (snd cr)) (described_setup_calls ext s)"
    by (auto simp: TangoSetupConfig_def SetDepthAlphaValue_def SetGPUUpsample_def Let_def
          described_setup_calls_def split: prod.splits option.splits if_splits)
qed

theorem setup_failure_aborts_witness:
  "TangoSetupConfig color_flag_failure_externals sample_application =
     (False, sample_application\<lparr>tango_config := Some 11\<rparr>,
      [Scene_SetDepthAlphaValue 0,
       SDK (Call_getConfig TANGO_CONFIG_DEFAULT) (Handle (Some 11)),
       SDK (Call_setBool 11 ''config_enable_depth'' True) (Status TANGO_SUCCESS),
       SDK (Call_setBool 11 ''config_enable_color_camera'' True) (Status TANGO_INVALID),
       LOGE ''Failed to set 'enable_color_camera' configuration flag with error code: %d''
         [Arg_err TANGO_INVALID]]) \<and>
   has_failure (snd (snd (TangoSetupConfig color_flag_failure_externals sample_application))) \<and>
   stops_at_failure (snd (snd (TangoSetupConfig color_flag_failure_externals sample_application))) \<and>
   tango_config sample_application = None \<and>
   TangoSetupConfig manager_failure_externals sample_application =
     (False, sample_application\<lparr>tango_config := Some 11\<rparr>,
      [Scene_SetDepthAlphaValue 0,
       SDK (Call_getConfig TANGO_CONFIG_DEFAULT) (Handle (Some 11)),
       SDK (Call_setBool 11 ''config_enable_depth'' True) (Status TANGO_SUCCESS),
       SDK (Call_setBool 11 ''config_enable_color_camera'' True) (Status TANGO_SUCCESS),
       SDK (Call_setBool 11 ''config_enable_low_latency_imu_integration'' True)
         (Status TANGO_SUCCESS),
       SDK (Call_getInt32 11 ''max_point_cloud_elements'') (Status TANGO_SUCCESS),
       SDK (Call_createPointCloudManager 60000) (Status TANGO_ERROR)]) \<and>
   upto_first_failure (described_setup_calls manager_failure_externals sample_application) =
     [(Call_getConfig TANGO_CONFIG_DEFAULT, Handle (Some 11)),
      (Call_setBool 11 ''config_enable_depth'' True, Status TANGO_SUCCESS),
      (Call_setBool 11 ''config_enable_color_camera'' True, Status TANGO_SUCCESS),
      (Call_setBool 11 ''config_enable_low_latency_imu_integration'' True, Status TANGO_SUCCESS),
      (Call_getInt32 11 ''max_point_cloud_elements'', Status TANGO_SUCCESS),
      (Call_createPointCloudManager 60000, Status TANGO_ERROR)] \<and>
   TangoConnect connect_failure_externals sample_application =
     (False, sample_application,
      [SDK (Call_connect None) (Status TANGO_ERROR),
       LOGE ''SynchronizationApplication: Failed to connect to the Tango service.'' []]) \<and>
   has_failure (snd (snd (TangoConnect connect_failure_externals sample_application)))"
proof -
  have flag_run: "TangoSetupConfig color_flag_failure_externals sample_application =
     (False, sample_application\<lparr>tango_config := Some 11\<rparr>,
      [Scene_SetDepthAlphaValue 0,
       SDK (Call_getConfig TANGO_CONFIG_DEFAULT) (Handle (Some 11)),
       SDK (Call_setBool 11 ''config_enable_depth'' True) (Status TANGO_SUCCESS),
       SDK (Call_setBool 11 ''config_enable_color_camera'' True) (Status TANGO_INVALID),
       LOGE ''Failed to set 'enable_color_camera' configuration flag with error code: %d''
         [Arg_err TANGO_INVALID]])"
    by (simp add: TangoSetupConfig_def SetDepthAlphaValue_def SetGPUUpsample_def Let_def
          color_flag_failure_externals_def sample_defs constructor_def)
  have manager_run: "TangoSetupConfig manager_failure_externals sample_application =
     (False, sample_application\<lparr>tango_config := Some 11\<rparr>,
      [Scene_SetDepthAlphaValue 0,
       SDK (Call_getConfig TANGO_CONFIG_DEFAULT) (Handle (Some 11)),
       SDK (Call_setBool 11 ''config_enable_depth'' True) (Status TANGO_SUCCESS),
       SDK (Call_setBool 11 ''config_enable_color_camera'' True) (Status TANGO_SUCCESS),
       SDK (Call_setBool 11 ''config_enable_low_latency_imu_integration'' True)
         (Status TANGO_SUCCESS),
       SDK (Call_getInt32 11 ''max_point_cloud_elements'') (Status TANGO_SUCCESS),
       SDK (Call_createPointCloudManager 60000) (Status TANGO_ERROR)])"
    by (simp add: TangoSetupConfig_def SetDepthAlphaValue_def SetGPUUpsample_def Let_def
          manager_failure_externals_def sample_defs constructor_def)
  have null: "tango_config sample_application = None"
    by (simp add: sample_defs constructor_def)
  have connect_run: "TangoConnect connect_failure_externals sample_application =
     (False, sample_application,
      [SDK (Call_connect None) (Status TANGO_ERROR),
       LOGE ''SynchronizationApplication: Failed to connect to the Tango service.'' []])"
    by (simp add: TangoConnect_def Let_def connect_failure_externals_def sample_defs
          constructor_def)
  from setup_failure_aborts [of color_flag_failure_externals sample_application False
      "sample_application\<lparr>tango_config := Some 11\<rparr>"
      "snd (snd (TangoSetupConfig color_flag_failure_externals sample_application))"]
    setup_failure_aborts [of manager_failure_externals sample_application False
      "sample_application\<lparr>tango_config := Some 11\<rparr>"
      "snd (snd (TangoSetupConfig manager_failure_externals sample_application))"]
    setup_failure_aborts [of connect_failure_externals sample_application False
      sample_application
      "snd (snd (TangoConnect connect_failure_externals sample_application))"]
    flag_run manager_run null connect_run
  show ?thesis by simp
qed

subsection \<open>The choice of the depth path\<close>

text \<open>
  Claim C5. On a frame where both poses are valid, \<open>Render\<close> right after
  \<open>SetGPUUpsample on\<close> makes exactly one depth call, \<open>RenderDepthToTexture\<close> when
  \<open>on\<close> is true and \<open>UpdateAndUpsampleDepth\<close> when it is false, and then renders the
  scene: these two are all the rendering calls of the frame.
\<close>

theorem Render_depth_path:
  assumes "fetched_buffer ext s = Some cloud"
    and "status_code (color_pose ext) = TANGO_POSE_VALID"
    and "status_code (depth_pose ext cloud) = TANGO_POSE_VALID"
  shows "\<exists>t m n.
           Render ext (SetGPUUpsample on s) =
             Inr ((SetGPUUpsample on s)\<lparr>render_buffer := Some cloud\<rparr>, t) \<and>
           render_calls t =
             [if on then DepthImage_RenderDepthToTexture m cloud n
              else DepthImage_UpdateAndUpsampleDepth m cloud,
              Scene_Render (color_image_GetTextureId ext) (depth_image_GetTextureId ext)]"
proof -
  have "fetched_buffer ext (SetGPUUpsample on s) = Some cloud"
    using assms(1) by (simp add: fetched_buffer_def SetGPUUpsample_def split: option.splits)
  from Render_fetched [OF this] show ?thesis
    using assms(2,3) by (auto simp: render_calls_frame SetGPUUpsample_def)
qed

theorem Render_depth_path_witness:
  "fetched_buffer sample_externals sample_application = Some sample_cloud \<and>
   status_code (color_pose sample_externals) = TANGO_POSE_VALID \<and>
   status_code (depth_pose sample_externals sample_cloud) = TANGO_POSE_VALID \<and>
   render_calls (snd (projr (Render sample_externals (SetGPUUpsample True sample_application)))) =
     [DepthImage_RenderDepthToTexture
        (Product
           (Matrix_of_pose \<lparr>orientation = [0, 0, 0, 1], translation = [8, 1, 0],
                            status_code = TANGO_POSE_VALID\<rparr>)
           (Matrix_of_pose \<lparr>orientation = [0, 0, 0, 1], translation = [7, 0, 0],
                            status_code = TANGO_POSE_VALID\<rparr>))
        sample_cloud True,
      Scene_Render 1 2] \<and>
   render_calls (snd (projr (Render sample_externals (SetGPUUpsample False sample_application)))) =
     [DepthImage_UpdateAndUpsampleDepth
        (Product
           (Matrix_of_pose \<lparr>orientation = [0, 0, 0, 1], translation = [8, 1, 0],
                            status_code = TANGO_POSE_VALID\<rparr>)
           (Matrix_of_pose \<lparr>orientation = [0, 0, 0, 1], translation = [7, 0, 0],
                            status_code = TANGO_POSE_VALID\<rparr>))
        sample_cloud,
      Scene_Render 1 2]"
proof -
  have f: "fetched_buffer sample_externals sample_application = Some sample_cloud"
    by (simp add: fetched_buffer_def sample_defs constructor_def)
  have c: "status_code (color_pose sample_externals) = TANGO_POSE_VALID"
    by (simp add: frame_defs sample_defs)
  have d: "status_code (depth_pose sample_externals sample_cloud) = TANGO_POSE_VALID"
    by (simp add: frame_defs sample_defs)
  have gpu: "render_calls (snd (projr (Render sample_externals (SetGPUUpsample True sample_application)))) =
     [DepthImage_RenderDepthToTexture
        (Product
           (Matrix_of_pose \<lparr>orientation = [0, 0, 0, 1], translation = [8, 1, 0],
                            status_code = TANGO_POSE_VALID\<rparr>)
           (Matrix_of_pose \<lparr>orientation = [0, 0, 0, 1], translation = [7, 0, 0],
                            status_code = TANGO_POSE_VALID\<rparr>))
        sample_cloud True,
      Scene_Render 1 2]"
    using Render_depth_path [OF f c d, of True]
    by (simp add: Render_def render_calls_def Let_def SetGPUUpsample_def sample_defs constructor_def)
  have cpu: "render_calls (snd (projr (Render sample_externals (SetGPUUpsample False sample_application)))) =
     [DepthImage_UpdateAndUpsampleDepth
        (Product
           (Matrix_of_pose \<lparr>orientation = [0, 0, 0, 1], translation = [8, 1, 0],
                            status_code = TANGO_POSE_VALID\<rparr>)
           (Matrix_of_pose \<lparr>orientation = [0, 0, 0, 1], translation = [7, 0, 0],
                            status_code = TANGO_POSE_VALID\<rparr>))
        sample_cloud,
      Scene_Render 1 2]"
    using Render_depth_path [OF f c d, of False]
    by (simp add: Render_def render_calls_def Let_def SetGPUUpsample_def sample_defs constructor_def)
  from f c d gpu cpu show ?thesis by blast
qed

subsection \<open>The depth callback\<close>

text \<open>
  Claim C6. For every point cloud it receives, \<open>OnXYZijAvailable\<close> makes one call,
  \<^verbatim>\<open>TangoSupport_updatePointCloud\<close> on the point-cloud manager with that cloud, and
  leaves every field of the object as it was.
\<close>

theorem OnXYZijAvailable_only_updates_point_cloud:
  "fst (OnXYZijAvailable ext xyz_ij s) = s \<and>
   sdk_calls (snd (OnXYZijAvailable ext xyz_ij s)) =
     [Call_updatePointCloud (point_cloud_manager s) xyz_ij] \<and>
   length (snd (OnXYZijAvailable ext xyz_ij s)) = 1"
  by (simp add: OnXYZijAvailable_def)

subsection \<open>The fixed transform\<close>

text \<open>
  Claim C7. The constructor sets \<^verbatim>\<open>OW_T_SS_\<close> to
  \<^verbatim>\<open>opengl_world_T_tango_world\<close>, and no sequence of operations on the object
  changes it.
\<close>

theorem OW_T_SS_fixed:
  "perform_all ops (constructor opengl_world_T_tango_world mem) = Inr (s, t)
     \<Longrightarrow> OW_T_SS s = opengl_world_T_tango_world"
proof -
  have kept: "perform_all ops s0 = Inr (s, t) \<Longrightarrow> OW_T_SS s = OW_T_SS s0"
    for s0 :: "'a SynchronizationApplication" and t
  proof (induction ops arbitrary: s0 t)
    case Nil
    then show ?case by simp
  next
    case (Cons a ops)
    obtain ext opn where a: "a = (ext, opn)" by (cases a)
    from Cons.prems a obtain r s1 t1 t2 where
      first: "perform ext opn s0 = Inr (r, s1, t1)" and later: "perform_all ops s1 = Inr (s, t2)"
      by (auto split: sum.splits prod.splits)
    from Cons.IH [OF later] perform_keeps_OW_T_SS [OF first] show ?case by simp
  qed
  assume "perform_all ops (constructor opengl_world_T_tango_world mem) = Inr (s, t)"
  from kept [OF this] show ?thesis by (simp add: constructor_def)
qed

theorem OW_T_SS_fixed_witness:
  "\<not> isl (perform_all sample_session (constructor Opengl_world_T_tango_world sample_memory)) \<and>
   OW_T_SS sample_memory \<noteq> Opengl_world_T_tango_world \<and>
   OW_T_SS (fst (projr (perform_all sample_session
                          (constructor Opengl_world_T_tango_world sample_memory)))) =
     Opengl_world_T_tango_world"
proof -
  have ran: "\<not> isl (perform_all sample_session
                       (constructor Opengl_world_T_tango_world sample_memory))"
    by (simp add: member_defs sample_defs Let_def)
  then have "perform_all sample_session (constructor Opengl_world_T_tango_world sample_memory) =
      Inr (fst (projr (perform_all sample_session
                         (constructor Opengl_world_T_tango_world sample_memory))),
           snd (projr (perform_all sample_session
                         (constructor Opengl_world_T_tango_world sample_memory))))"
    by (cases "perform_all sample_session (constructor Opengl_world_T_tango_world sample_memory)")
       simp_all
  from OW_T_SS_fixed [OF this] ran show ?thesis
    by (simp add: sample_memory_def)
qed

subsection \<open>What the configuration step resets\<close>

text \<open>
  Claim C8. Every call of \<open>TangoSetupConfig\<close> starts by giving the scene the depth
  alpha 0.0 and ends with the GPU flag false, so after it the alpha last set is 0.0 and
  the flag is off whatever was set before (\<open>earlier\<close> is any trace before the call,
  \<open>s\<close> any object). When the configuration handle is not null the function returns
  true with nothing else done: no service call, the handle and the point-cloud manager as
  they were.
\<close>

theorem TangoSetupConfig_resets_alpha_and_upsampling:
  assumes "TangoSetupConfig ext s = (ok, s', t)"
  shows "(\<exists>t'. t = Scene_SetDepthAlphaValue 0 # t') \<and>
         depth_alpha_set (earlier @ t) = Some 0 \<and>
         \<not> gpu_upsample s' \<and>
         (tango_config s \<noteq> None \<longrightarrow>
            ok \<and> t = [Scene_SetDepthAlphaValue 0] \<and> s' = s\<lparr>gpu_upsample := False\<rparr>)"
  using assms
  by (auto simp: TangoSetupConfig_def SetDepthAlphaValue_def SetGPUUpsample_def Let_def
        depth_alpha_set_append split: prod.splits option.splits if_splits)

theorem TangoSetupConfig_resets_alpha_and_upsampling_witness:
  "gpu_upsample (SetGPUUpsample True (sample_application\<lparr>tango_config := Some 11\<rparr>)) \<and>
   TangoSetupConfig sample_externals
       (SetGPUUpsample True (sample_application\<lparr>tango_config := Some 11\<rparr>)) =
     (True, sample_application\<lparr>tango_config := Some 11\<rparr>, [Scene_SetDepthAlphaValue 0]) \<and>
   depth_alpha_set
     (snd (SetDepthAlphaValue (1 / 2) sample_application) @ [Scene_SetDepthAlphaValue 0]) = Some 0"
proof -
  have run: "TangoSetupConfig sample_externals
       (SetGPUUpsample True (sample_application\<lparr>tango_config := Some 11\<rparr>)) =
     (True, sample_application\<lparr>tango_config := Some 11\<rparr>, [Scene_SetDepthAlphaValue 0])"
    by (simp add: TangoSetupConfig_def SetDepthAlphaValue_def SetGPUUpsample_def Let_def
          sample_defs constructor_def)
  from TangoSetupConfig_resets_alpha_and_upsampling [OF run,
      of "snd (SetDepthAlphaValue (1 / 2) sample_application)"] run
  show ?thesis
    by (simp add: SetGPUUpsample_def)
qed

subsection \<open>The version check\<close>

text \<open>
  Claim C9. \<open>CheckTangoVersion\<close> returns true exactly when the version query returns
  \<open>TANGO_SUCCESS\<close> and the version it reports is at least \<open>min_tango_version\<close>, both
  read as signed 32-bit numbers, whatever \<open>min_tango_version\<close> is.
\<close>

theorem CheckTangoVersion_iff:
  "fst (CheckTangoVersion ext env activity min_tango_version s) =
     (fst (TangoSupport_GetTangoVersion ext env activity) = TANGO_SUCCESS \<and>
      sint min_tango_version \<le> sint (snd (TangoSupport_GetTangoVersion ext env activity)))"
  by (simp add: CheckTangoVersion_def word_sle_eq split: prod.splits)

subsection \<open>The depth timestamp and the new-data flag\<close>

text \<open>
  Claim C10. Whenever a point cloud is at hand after the fetch (the one the fetch wrote,
  or else the one \<^verbatim>\<open>render_buffer_\<close> held), \<open>Render\<close> returns: its first service
  call is the fetch of the latest point cloud, \<^verbatim>\<open>render_buffer_\<close> then holds that
  cloud, and the depth pose is queried at the timestamp of that cloud, whatever the
  new-data flag says. When the fetch delivers no other cloud than the one held before,
  that is the timestamp of the previous cloud. The flag reaches a rendering call only as
  the argument of \<open>RenderDepthToTexture\<close>, on the GPU path; on the CPU path the frame is
  the same whatever the flag is.
\<close>

theorem Render_depth_time_and_new_data_flag:
  assumes "fetched_buffer ext s = Some cloud"
  shows "(\<exists>t. Render ext s = Inr (s\<lparr>render_buffer := Some cloud\<rparr>, t) \<and>
            take 1 (sdk_calls t) =
              [Call_getLatestPointCloudAndNewDataFlag (point_cloud_manager s)] \<and>
            map fst (pose_queries t) = [timestamp cloud, color_time ext] \<and>
            new_data_flags t =
              (if gpu_upsample s \<and> render_calls t \<noteq> []
               then [case snd (snd (TangoSupport_getLatestPointCloudAndNewDataFlag ext
                                      (point_cloud_manager s))) of
                       Some b \<Rightarrow> b | None \<Rightarrow> False]
               else [])) \<and>
         (case fst (snd (TangoSupport_getLatestPointCloudAndNewDataFlag ext
                           (point_cloud_manager s))) of
            Some latest \<Rightarrow> cloud = latest
          | None \<Rightarrow> render_buffer s = Some cloud) \<and>
         (fst (snd (TangoSupport_getLatestPointCloudAndNewDataFlag ext (point_cloud_manager s)))
            \<in> {None, render_buffer s} \<longrightarrow>
          render_buffer s = Some cloud) \<and>
         (\<not> gpu_upsample s \<longrightarrow>
          Render (ext\<lparr>TangoSupport_getLatestPointCloudAndNewDataFlag :=
                    (\<lambda>m. (fst (TangoSupport_getLatestPointCloudAndNewDataFlag ext m),
                          fst (snd (TangoSupport_getLatestPointCloudAndNewDataFlag ext m)),
                          flag))\<rparr>) s = Render ext s)"
proof -
  let ?ext' = "ext\<lparr>TangoSupport_getLatestPointCloudAndNewDataFlag :=
                    (\<lambda>m. (fst (TangoSupport_getLatestPointCloudAndNewDataFlag ext m),
                          fst (snd (TangoSupport_getLatestPointCloudAndNewDataFlag ext m)),
                          flag))\<rparr>"
  have a: "\<exists>t. Render ext s = Inr (s\<lparr>render_buffer := Some cloud\<rparr>, t) \<and>
            take 1 (sdk_calls t) =
              [Call_getLatestPointCloudAndNewDataFlag (point_cloud_manager s)] \<and>
            map fst (pose_queries t) = [timestamp cloud, color_time ext] \<and>
            new_data_flags t =
              (if gpu_upsample s \<and> render_calls t \<noteq> []
               then [case snd (snd (TangoSupport_getLatestPointCloudAndNewDataFlag ext
                                      (point_cloud_manager s))) of
                       Some b \<Rightarrow> b | None \<Rightarrow> False]
               else [])"
    using Render_fetched [OF assms] new_data_flags_frame [of ext s cloud]
    by (simp add: sdk_calls_frame pose_queries_frame)
  have b: "case fst (snd (TangoSupport_getLatestPointCloudAndNewDataFlag ext
                           (point_cloud_manager s))) of
            Some latest \<Rightarrow> cloud = latest
          | None \<Rightarrow> render_buffer s = Some cloud"
    using assms by (simp add: fetched_buffer_def split: option.splits)
  have c: "fst (snd (TangoSupport_getLatestPointCloudAndNewDataFlag ext (point_cloud_manager s)))
            \<in> {None, render_buffer s} \<longrightarrow> render_buffer s = Some cloud"
    using assms by (auto simp: fetched_buffer_def split: option.splits)
  have d: "Render ?ext' s = Render ext s" if cpu: "\<not> gpu_upsample s"
  proof -
    have f': "fetched_buffer ?ext' s = Some cloud"
      using assms by (simp add: fetched_buffer_def)
    have "frame_trace ?ext' s cloud = frame_trace ext s cloud"
      using cpu by (simp add: frame_trace_def color_time_def color_pose_def depth_pose_def)
    with Render_fetched [OF f'] Render_fetched [OF assms] show ?thesis by simp
  qed
  from a b c d show ?thesis by blast
qed

theorem Render_depth_time_and_new_data_flag_witness:
  "fetched_buffer sample_externals
     (SetGPUUpsample True (sample_application\<lparr>render_buffer := Some old_cloud\<rparr>)) =
     Some sample_cloud \<and>
   sample_cloud \<noteq> old_cloud \<and>
   render_buffer (fst (projr (Render sample_externals
     (SetGPUUpsample True (sample_application\<lparr>render_buffer := Some old_cloud\<rparr>))))) =
     Some sample_cloud \<and>
   map fst (pose_queries (snd (projr (Render sample_externals
     (SetGPUUpsample True (sample_application\<lparr>render_buffer := Some old_cloud\<rparr>)))))) =
     [7, 8] \<and>
   new_data_flags (snd (projr (Render sample_externals
     (SetGPUUpsample True (sample_application\<lparr>render_buffer := Some old_cloud\<rparr>))))) =
     [True] \<and>
   fetched_buffer no_new_data_externals
     (SetGPUUpsample True (sample_application\<lparr>render_buffer := Some old_cloud\<rparr>)) =
     Some old_cloud \<and>
   map fst (pose_queries (snd (projr (Render no_new_data_externals
     (SetGPUUpsample True (sample_application\<lparr>render_buffer := Some old_cloud\<rparr>)))))) =
     [3, 8] \<and>
   new_data_flags (snd (projr (Render no_new_data_externals
     (SetGPUUpsample True (sample_application\<lparr>render_buffer := Some old_cloud\<rparr>))))) =
     [False] \<and>
   \<not> gpu_upsample (sample_application\<lparr>render_buffer := Some old_cloud\<rparr>) \<and>
   \<not> isl (Render sample_externals (sample_application\<lparr>render_buffer := Some old_cloud\<rparr>)) \<and>
   Render (sample_externals\<lparr>TangoSupport_getLatestPointCloudAndNewDataFlag :=
             (\<lambda>m. (TANGO_SUCCESS, Some sample_cloud, Some False))\<rparr>)
       (sample_application\<lparr>render_buffer := Some old_cloud\<rparr>) =
     Render sample_externals (sample_application\<lparr>render_buffer := Some old_cloud\<rparr>)"
proof -
  let ?gpu = "SetGPUUpsample True (sample_application\<lparr>render_buffer := Some old_cloud\<rparr>)"
  let ?cpu = "sample_application\<lparr>render_buffer := Some old_cloud\<rparr>"
  have new: "fetched_buffer sample_externals ?gpu = Some sample_cloud"
    by (simp add: fetched_buffer_def SetGPUUpsample_def sample_defs constructor_def)
  have stale: "fetched_buffer no_new_data_externals ?gpu = Some old_cloud"
    by (simp add: fetched_buffer_def no_new_data_externals_def SetGPUUpsample_def sample_defs
          constructor_def)
  have plain: "fetched_buffer sample_externals ?cpu = Some sample_cloud"
    by (simp add: fetched_buffer_def sample_defs constructor_def)
  have differ: "sample_cloud \<noteq> old_cloud"
    by (simp add: sample_cloud_def old_cloud_def)
  have cpu: "\<not> gpu_upsample ?cpu"
    by (simp add: sample_defs constructor_def)
  have new_frame:
    "render_buffer (fst (projr (Render sample_externals ?gpu))) = Some sample_cloud"
    "map fst (pose_queries (snd (projr (Render sample_externals ?gpu)))) = [7, 8]"
    "new_data_flags (snd (projr (Render sample_externals ?gpu))) = [True]"
    using Render_depth_time_and_new_data_flag [OF new]
    by (simp_all add: Render_def Let_def SetGPUUpsample_def sample_defs constructor_def)
  have stale_frame:
    "map fst (pose_queries (snd (projr (Render no_new_data_externals ?gpu)))) = [3, 8]"
    "new_data_flags (snd (projr (Render no_new_data_externals ?gpu))) = [False]"
    using Render_depth_time_and_new_data_flag [OF stale]
    by (simp_all add: Render_def Let_def no_new_data_externals_def old_cloud_def
          SetGPUUpsample_def sample_defs constructor_def)
  have ran: "\<not> isl (Render sample_externals ?cpu)"
    using Render_depth_time_and_new_data_flag [OF plain, of None] by auto
  have same: "Render (sample_externals\<lparr>TangoSupport_getLatestPointCloudAndNewDataFlag :=
             (\<lambda>m. (TANGO_SUCCESS, Some sample_cloud, Some False))\<rparr>) ?cpu =
     Render sample_externals ?cpu"
    using Render_depth_time_and_new_data_flag [OF plain, of "Some False"] cpu
    by (simp add: sample_externals_def)
  from new differ new_frame stale stale_frame cpu ran same show ?thesis by blast
qed

end
